theory Spec2Isabelle
  imports Complex_Main "HOL-Library.Word" "HOL-Library.Sublist"
begin

unbundle bit_operations_syntax

chapter \<open>Orchestration core of the bot: login codec, headers, timing, ban score,
  pattern executor, queue batch processor, session orchestrator\<close>

section \<open>Python values\<close>

text \<open>
  A Python \<open>bytes\<close> object is a list of bytes; a Python \<open>str\<close> is a list of Unicode
  code points. \<open>lit\<close> turns an ASCII literal into the \<open>str\<close> with those code points.
\<close>

type_synonym byte = "8 word"
type_synonym pystr = "nat list"

definition lit :: "string \<Rightarrow> pystr" where
  "lit s = map of_char s"

definition ascii_bytes :: "string \<Rightarrow> byte list" where
  "ascii_bytes s = map of_char s"

datatype py_exception = UnicodeDecodeError | UnicodeEncodeError | KeyError | TypeError | OtherError

text \<open>
  \<open>bytes.decode('utf-8')\<close> in strict mode: the code points of a well-formed UTF-8
  sequence; overlong forms, surrogates, code points above U+10FFFF, stray continuation
  bytes and truncated sequences raise \<open>UnicodeDecodeError\<close> (here \<open>None\<close>).
\<close>

definition is_cont :: "nat \<Rightarrow> bool" where
  "is_cont b = (0x80 \<le> b \<and> b \<le> 0xBF)"

fun utf8_points :: "nat list \<Rightarrow> pystr option" where
  "utf8_points [] = Some []"
| "utf8_points (b # bs) =
     (if b < 0x80 then map_option ((#) b) (utf8_points bs)
      else if 0xC2 \<le> b \<and> b \<le> 0xDF then
        (case bs of
           c1 # r1 \<Rightarrow>
             if is_cont c1
             then map_option ((#) ((b - 0xC0) * 64 + (c1 - 0x80))) (utf8_points r1)
             else None
         | _ \<Rightarrow> None)
      else if 0xE0 \<le> b \<and> b \<le> 0xEF then
        (case bs of
           c1 # c2 # r2 \<Rightarrow>
             if is_cont c1 \<and> is_cont c2 \<and> (b = 0xE0 \<longrightarrow> 0xA0 \<le> c1)
                \<and> (b = 0xED \<longrightarrow> c1 \<le> 0x9F)
             then map_option ((#) ((b - 0xE0) * 4096 + (c1 - 0x80) * 64 + (c2 - 0x80)))
                    (utf8_points r2)
             else None
         | _ \<Rightarrow> None)
      else if 0xF0 \<le> b \<and> b \<le> 0xF4 then
        (case bs of
           c1 # c2 # c3 # r3 \<Rightarrow>
             if is_cont c1 \<and> is_cont c2 \<and> is_cont c3 \<and> (b = 0xF0 \<longrightarrow> 0x90 \<le> c1)
                \<and> (b = 0xF4 \<longrightarrow> c1 \<le> 0x8F)
             then map_option
                    ((#) ((b - 0xF0) * 262144 + (c1 - 0x80) * 4096 + (c2 - 0x80) * 64
                          + (c3 - 0x80)))
                    (utf8_points r3)
             else None
         | _ \<Rightarrow> None)
      else None)"

definition utf8_decode :: "byte list \<Rightarrow> py_exception + pystr" where
  "utf8_decode bs =
     (case utf8_points (map unat bs) of None \<Rightarrow> Inl UnicodeDecodeError | Some s \<Rightarrow> Inr s)"

text \<open>
  \<open>str.encode('utf-8')\<close>: one to four bytes per code point; a surrogate raises
  \<open>UnicodeEncodeError\<close>.
\<close>

definition utf8_bytes_of :: "nat \<Rightarrow> byte list option" where
  "utf8_bytes_of c =
     (if c < 0x80 then Some [of_nat c]
      else if c < 0x800 then Some [of_nat (0xC0 + c div 64), of_nat (0x80 + c mod 64)]
      else if 0xD800 \<le> c \<and> c \<le> 0xDFFF then None
      else if c < 0x10000 then
        Some [of_nat (0xE0 + c div 4096), of_nat (0x80 + (c div 64) mod 64),
              of_nat (0x80 + c mod 64)]
      else
        Some [of_nat (0xF0 + c div 262144), of_nat (0x80 + (c div 4096) mod 64),
              of_nat (0x80 + (c div 64) mod 64), of_nat (0x80 + c mod 64)])"

fun utf8_encode :: "pystr \<Rightarrow> py_exception + byte list" where
  "utf8_encode [] = Inr []"
| "utf8_encode (c # cs) =
     (case utf8_bytes_of c of
        None \<Rightarrow> Inl UnicodeEncodeError
      | Some bs \<Rightarrow> (case utf8_encode cs of Inl e \<Rightarrow> Inl e | Inr rest \<Rightarrow> Inr (bs @ rest)))"

section \<open>Login codec (\<open>TinderApi\<close>)\<close>

subsection \<open>Varints\<close>

text \<open>
  \<open>_encode_varint\<close>: seven bits per byte, low group first, the high bit set on every byte
  but the last. It is only called on \<open>len(...)\<close>, a natural number.
\<close>

function encode_varint :: "nat \<Rightarrow> byte list" where
  "encode_varint v =
     (if v \<ge> 0x80 then of_nat ((v AND 0x7F) OR 0x80) # encode_varint (drop_bit 7 v)
      else [of_nat (v AND 0x7F)])"
  by pat_completeness auto
termination
  by (relation "measure id") (auto simp: drop_bit_eq_div)

declare encode_varint.simps [simp del]

text \<open>
  \<open>_decode_varint(data, pos)\<close>: the loop stops at the first byte without the high bit, or
  at the end of the data; it returns the value and the new position.
\<close>

function decode_varint_loop :: "byte list \<Rightarrow> nat \<Rightarrow> nat \<Rightarrow> nat \<Rightarrow> nat \<times> nat" where
  "decode_varint_loop data pos result shift =
     (if pos < length data then
        (let b = data ! pos;
             result' = result OR push_bit shift (unat (b AND 0x7F))
         in if b AND 0x80 = 0 then (result', pos + 1)
            else decode_varint_loop data (pos + 1) result' (shift + 7))
      else (result, pos))"
  by pat_completeness auto
termination
  by (relation "measure (\<lambda>(data, pos, result, shift). length data - pos)") auto

declare decode_varint_loop.simps [simp del]

definition decode_varint :: "byte list \<Rightarrow> nat \<Rightarrow> nat \<times> nat" where
  "decode_varint data pos = decode_varint_loop data pos 0 0"

text \<open>\<open>data[pos:pos + n]\<close>\<close>

definition slice :: "'a list \<Rightarrow> nat \<Rightarrow> nat \<Rightarrow> 'a list" where
  "slice data pos n = take n (drop pos data)"

lemma decode_varint_loop_pos: "pos \<le> snd (decode_varint_loop data pos result shift)"
proof (induction data pos result shift rule: decode_varint_loop.induct)
  case (1 data pos result shift)
  show ?case
  proof (cases "pos < length data")
    case False
    then show ?thesis by (subst decode_varint_loop.simps) simp
  next
    case True
    show ?thesis
    proof (cases "data ! pos AND 0x80 = 0")
      case True
      with \<open>pos < length data\<close> show ?thesis
        by (subst decode_varint_loop.simps) (simp add: Let_def)
    next
      case False
      from "1.IH" [OF \<open>pos < length data\<close> refl refl False]
      have "pos + 1 \<le> snd (decode_varint_loop data (pos + 1)
              (result OR push_bit shift (unat (data ! pos AND 0x7F))) (shift + 7))" .
      with False \<open>pos < length data\<close> show ?thesis
        by (subst decode_varint_loop.simps) (simp add: Let_def)
    qed
  qed
qed

lemma decode_varint_pos: "pos \<le> snd (decode_varint data pos)"
  by (simp add: decode_varint_def decode_varint_loop_pos)

lemma decode_varint_skip:
  "pos < length data \<Longrightarrow> length data - snd (decode_varint data (Suc pos)) < length data - pos"
  using decode_varint_pos [of "Suc pos" data] by linarith

lemma decode_varint_skip_len:
  "pos < length data \<Longrightarrow>
   length data - (snd (decode_varint data (Suc pos)) + n) < length data - pos"
  using decode_varint_pos [of "Suc pos" data] by linarith

subsection \<open>Encoding the refresh request\<close>

text \<open>
  \<open>_encode_refresh_auth_protobuf\<close>: the token bytes behind the tag \<open>0x0A\<close> (field 1,
  length-delimited), the whole behind the tag \<open>0x52\<close> (field 10, length-delimited).
\<close>

definition encode_refresh_auth_protobuf :: "pystr \<Rightarrow> py_exception + byte list" where
  "encode_refresh_auth_protobuf refresh_token =
     (case utf8_encode refresh_token of
        Inl e \<Rightarrow> Inl e
      | Inr refresh_token_bytes \<Rightarrow>
          (let refresh_token_field =
                 [0x0A] @ encode_varint (length refresh_token_bytes) @ refresh_token_bytes;
               refresh_auth_field =
                 [0x52] @ encode_varint (length refresh_token_field) @ refresh_token_field
           in Inr refresh_auth_field))"

subsection \<open>Decoding the response\<close>

text \<open>
  The dictionary \<open>_parse_auth_response_manual\<close> returns is either
  \<open>{"success": True, "auth_token": .., "refresh_token": .., "user_id": ..}\<close> (here
  \<open>Success\<close>, \<open>None\<close> for a token that was never set) or
  \<open>{"success": False, "error": ..}\<close> (here \<open>Failure\<close>). The error text is the message
  read from field 7, or \<open>str(e)\<close> of the exception caught by the function's handler.
\<close>

record login_fields =
  auth_token :: "pystr option"
  refresh_token :: "pystr option"
  user_id :: "pystr option"

datatype error_text = Message pystr | ExceptionText py_exception

datatype auth_response = Success login_fields | Failure error_text

definition initial_fields :: login_fields where
  "initial_fields = \<lparr>auth_token = None, refresh_token = None, user_id = None\<rparr>"

text \<open>The loop over the login result (field 8).\<close>

function parse_login_result ::
  "byte list \<Rightarrow> nat \<Rightarrow> login_fields \<Rightarrow> py_exception + login_fields" where
  "parse_login_result login_data lr_pos result =
     (if lr_pos < length login_data then
        (let lr_key = login_data ! lr_pos;
             p = lr_pos + 1;
             lr_field_num = drop_bit 3 lr_key;
             dv = decode_varint login_data p
         in if lr_field_num = 1 then
              (case utf8_decode (slice login_data (snd dv) (fst dv)) of
                 Inl e \<Rightarrow> Inl e
               | Inr s \<Rightarrow>
                   parse_login_result login_data (snd dv + fst dv)
                     (result\<lparr>refresh_token := Some s\<rparr>))
            else if lr_field_num = 2 then
              (case utf8_decode (slice login_data (snd dv) (fst dv)) of
                 Inl e \<Rightarrow> Inl e
               | Inr s \<Rightarrow>
                   parse_login_result login_data (snd dv + fst dv)
                     (result\<lparr>auth_token := Some s\<rparr>))
            else if lr_field_num = 4 then
              (case utf8_decode (slice login_data (snd dv) (fst dv)) of
                 Inl e \<Rightarrow> Inl e
               | Inr s \<Rightarrow>
                   parse_login_result login_data (snd dv + fst dv)
                     (result\<lparr>user_id := Some s\<rparr>))
            else if lr_key AND 0x7 = 2 then
              parse_login_result login_data (snd dv + fst dv) result
            else if lr_key AND 0x7 = 0 then
              parse_login_result login_data (snd dv) result
            else parse_login_result login_data (p + 1) result)
      else Inr result)"
  by pat_completeness auto
termination
  by (relation "measure (\<lambda>(login_data, lr_pos, result). length login_data - lr_pos)")
     (auto simp: decode_varint_skip decode_varint_skip_len)

declare parse_login_result.simps [simp del]

text \<open>The loop over the error message (field 7); the last sub-field 1 read wins.\<close>

function parse_error_message ::
  "byte list \<Rightarrow> nat \<Rightarrow> pystr \<Rightarrow> py_exception + pystr" where
  "parse_error_message error_data error_pos error_message =
     (if error_pos < length error_data then
        (let error_key = error_data ! error_pos;
             p = error_pos + 1;
             error_field_num = drop_bit 3 error_key;
             dv = decode_varint error_data p
         in if error_field_num = 1 then
              (case utf8_decode (slice error_data (snd dv) (fst dv)) of
                 Inl e \<Rightarrow> Inl e
               | Inr s \<Rightarrow> parse_error_message error_data (snd dv + fst dv) s)
            else if error_key AND 0x7 = 2 then
              parse_error_message error_data (snd dv + fst dv) error_message
            else parse_error_message error_data (p + 1) error_message)
      else Inr error_message)"
  by pat_completeness auto
termination
  by (relation "measure (\<lambda>(error_data, error_pos, m). length error_data - error_pos)")
     (auto simp: decode_varint_skip decode_varint_skip_len)

declare parse_error_message.simps [simp del]

text \<open>
  The loop over the response. Field 8 updates the result and goes on; field 7 returns
  the failure at once; any other field is skipped by its length, by its varint, or by one
  byte. An exception of \<open>decode\<close> is caught by the handler around the whole body.
\<close>

function parse_fields :: "byte list \<Rightarrow> nat \<Rightarrow> login_fields \<Rightarrow> auth_response" where
  "parse_fields response_data pos result =
     (if pos < length response_data then
        (let field_key = response_data ! pos;
             p = pos + 1;
             field_num = drop_bit 3 field_key;
             dv = decode_varint response_data p
         in if field_num = 8 then
              (case parse_login_result (slice response_data (snd dv) (fst dv)) 0 result of
                 Inl e \<Rightarrow> Failure (ExceptionText e)
               | Inr result' \<Rightarrow> parse_fields response_data (snd dv + fst dv) result')
            else if field_num = 7 then
              (case parse_error_message (slice response_data (snd dv) (fst dv)) 0 [] of
                 Inl e \<Rightarrow> Failure (ExceptionText e)
               | Inr error_message \<Rightarrow> Failure (Message error_message))
            else if field_key AND 0x7 = 2 then
              parse_fields response_data (snd dv + fst dv) result
            else if field_key AND 0x7 = 0 then
              parse_fields response_data (snd dv) result
            else parse_fields response_data (p + 1) result)
      else Success result)"
  by pat_completeness auto
termination
  by (relation "measure (\<lambda>(response_data, pos, result). length response_data - pos)")
     (auto simp: decode_varint_skip decode_varint_skip_len)

declare parse_fields.simps [simp del]

definition parse_auth_response_manual :: "byte list \<Rightarrow> auth_response" where
  "parse_auth_response_manual response_data = parse_fields response_data 0 initial_fields"



text \<open>The tag byte of a field: the field number above the three bits of the wire type.\<close>

definition field_tag :: "nat \<Rightarrow> nat \<Rightarrow> byte" where
  "field_tag field_num wire_type = of_nat (push_bit 3 field_num OR wire_type)"

text \<open>
  The response built by hand for the round trip: field 8 (length-delimited) holding the
  sub-fields 2, 1 and 4 in this order.
\<close>

definition login_result_payload :: "byte list" where
  "login_result_payload =
     field_tag 2 2 # 5 # ascii_bytes ''AUTH1''
     @ field_tag 1 2 # 8 # ascii_bytes ''REFRESH1''
     @ field_tag 4 2 # 4 # ascii_bytes ''UID1''"

definition hand_built_response :: "byte list" where
  "hand_built_response =
     field_tag 8 2 # of_nat (length login_result_payload) # login_result_payload"


section \<open>Request headers (\<open>TinderApi.headers\<close>)\<close>

text \<open>
  The fields of the client that \<open>headers\<close> reads. \<open>api_auth_token\<close> is \<open>None\<close> for
  Python's \<open>None\<close>; the test \<open>if self.auth_token\<close> also fails on the empty string.
\<close>

record tinder_api =
  api_auth_token :: "pystr option"
  os_version :: pystr
  device_ram :: pystr
  persistent_device_id :: pystr
  app_session_id :: pystr
  user_session_id :: pystr
  install_id :: pystr
  appsflyer_id :: pystr
  advertising_id :: pystr
  funnel_session_id :: pystr
  hubble_network_id :: pystr
  x_request_id :: pystr
  x_hubble_entity_id :: pystr

text \<open>
  What one call draws from outside: the text of the elapsed session time, the fresh
  correlation id, and the text of the random connection speed.
\<close>

record header_draws =
  elapsed_time :: pystr
  correlation_id :: pystr
  connection_speed :: pystr

definition truthy :: "pystr option \<Rightarrow> bool" where
  "truthy v = (case v of None \<Rightarrow> False | Some s \<Rightarrow> s \<noteq> [])"

text \<open>\<open>d.update(e)\<close> and \<open>d.pop(k, None)\<close> on a dictionary.\<close>

definition dict_update :: "('k \<rightharpoonup> 'v) \<Rightarrow> ('k \<times> 'v) list \<Rightarrow> ('k \<rightharpoonup> 'v)" where
  "dict_update d kvs = fold (\<lambda>(k, v) m. m(k \<mapsto> v)) kvs d"

definition dict_pop :: "('k \<rightharpoonup> 'v) \<Rightarrow> 'k \<Rightarrow> ('k \<rightharpoonup> 'v)" where
  "dict_pop d k = d(k := None)"

definition base_headers :: "tinder_api \<Rightarrow> header_draws \<Rightarrow> (string \<rightharpoonup> pystr)" where
  "base_headers api dr =
     dict_update Map.empty
       [(''User-Agent'', lit ''Tinder Android Version 16.11.0''),
        (''os-version'', os_version api),
        (''app-version'', lit ''4732''),
        (''platform'', lit ''android''),
        (''platform-variant'', lit ''Google-Play''),
        (''x-supported-image-formats'', lit ''webp''),
        (''accept-language'', lit ''en-US''),
        (''tinder-version'', lit ''16.11.0''),
        (''store-variant'', lit ''Play-Store''),
        (''x-device-ram'', device_ram api),
        (''persistent-device-id'', persistent_device_id api),
        (''app-session-id'', app_session_id api),
        (''app-session-time-elapsed'', elapsed_time dr),
        (''install-id'', install_id api),
        (''accept-encoding'', lit ''gzip'')]"

definition headers ::
  "tinder_api \<Rightarrow> header_draws \<Rightarrow> string \<Rightarrow> bool \<Rightarrow> (string \<rightharpoonup> pystr)" where
  "headers api dr endpoint_type include_correlation =
     (let h0 = base_headers api dr;
          h1 = (if truthy (api_auth_token api)
                   \<and> endpoint_type \<notin> set [''auth'', ''healthcheck'', ''buckets_initial'']
                then h0(''x-auth-token'' \<mapsto> the (api_auth_token api)) else h0);
          h2 = (if endpoint_type \<notin> set [''auth'', ''healthcheck'', ''buckets_initial'']
                then h1(''user-session-id'' \<mapsto> user_session_id api,
                        ''user-session-time-elapsed'' \<mapsto> elapsed_time dr)
                else h1);
          h3 = (if include_correlation \<and> endpoint_type \<notin> set [''healthcheck'', ''auth'']
                then h2(''x-correlation-id'' \<mapsto> correlation_id dr) else h2)
      in if endpoint_type = ''auth'' then
           dict_pop
             (dict_pop
                (dict_pop
                   (dict_update h3
                      [(''appsflyer-id'', appsflyer_id api),
                       (''advertising-id'', advertising_id api),
                       (''funnel-session-id'', funnel_session_id api),
                       (''Content-Type'', lit ''application/x-protobuf'')])
                   ''x-auth-token'')
                ''user-session-id'')
             ''user-session-time-elapsed''
         else if endpoint_type = ''profile'' then h3(''support-short-video'' \<mapsto> lit ''1'')
         else if endpoint_type = ''recs'' then
           dict_update h3
             [(''support-short-video'', lit ''1''),
              (''connection-speed'', connection_speed dr),
              (''x-request-id'', x_request_id api),
              (''x-hubble-entity-id'', x_hubble_entity_id api)]
         else if endpoint_type = ''like'' then
           h3(''x-hubble-network-id'' \<mapsto> hubble_network_id api)
         else if endpoint_type = ''json_post'' then
           h3(''Content-Type'' \<mapsto> lit ''application/json; charset=UTF-8'')
         else h3)"

section \<open>The bot's configuration and session state (\<open>EnhancedTinderBot\<close>)\<close>

text \<open>
  The entries of \<open>self.config\<close> the modelled functions read. An entry read with
  \<open>config.get(key, default)\<close> is optional; \<open>load_config\<close> sets neither
  \<open>realistic_timing_variance\<close> nor \<open>ban_detection_sensitivity\<close>, so these two are
  \<open>None\<close> in every run. Python floats are modelled as exact reals.
\<close>

record config =
  realistic_timing_variance :: "real option"
  ban_detection_sensitivity :: "real option"
  max_likes_per_session :: int
  process_all_liked_me :: "bool option"
  like_users_who_liked_me :: bool

definition default_config :: config where
  "default_config =
     \<lparr>realistic_timing_variance = None, ban_detection_sensitivity = None,
      max_likes_per_session = 100000, process_all_liked_me = None,
      like_users_who_liked_me = True\<rparr>"

definition get_or :: "'a option \<Rightarrow> 'a \<Rightarrow> 'a" where
  "get_or v d = (case v of None \<Rightarrow> d | Some x \<Rightarrow> x)"

datatype session_phase = STARTUP | PROFILE_UPDATE | BROWSING | LIKING | MAINTENANCE | COOLDOWN

text \<open>\<open>self.current_session\<close>; times are seconds on the clock.\<close>

record current_session =
  phase :: session_phase
  start_time :: "nat option"
  actions_count :: int
  request_count :: int
  error_count :: int

section \<open>Timing engine (\<open>adaptive_delay\<close>)\<close>

definition BASE_DELAYS :: "(string \<times> real \<times> real) list" where
  "BASE_DELAYS =
     [(''micro'', 0.1, 0.5),
      (''short'', 0.5, 2.0),
      (''medium'', 2.0, 5.0),
      (''long'', 5.0, 15.0),
      (''break'', 30.0, 120.0),
      (''session_gap'', 300, 900)]"

text \<open>
  The three random numbers one call draws: two calls of \<open>random.random()\<close>, each in
  \<open>[0, 1)\<close>, and the one inside \<open>random.uniform(a, b) = a + (b - a) * random()\<close>.
\<close>

record delay_draws =
  draw_min :: real
  draw_max :: real
  draw_uniform :: real

definition uniform :: "real \<Rightarrow> real \<Rightarrow> real \<Rightarrow> real" where
  "uniform a b r = a + (b - a) * r"

text \<open>
  \<open>adaptive_delay(delay_type, context, factor)\<close>: the duration slept (which is also the
  value returned) and the factor as the debug log prints it. The two adjustments of
  \<open>factor\<close> by the session state come after \<open>min_delay\<close> and \<open>max_delay\<close> are computed,
  as in the source.
\<close>

record delay_result =
  slept :: real
  logged_factor :: real

definition adaptive_delay ::
  "config \<Rightarrow> current_session \<Rightarrow> delay_draws \<Rightarrow> string \<Rightarrow> real \<Rightarrow> delay_result" where
  "adaptive_delay cfg session dr delay_type factor =
     (let delay_type = (if delay_type \<notin> set (map fst BASE_DELAYS) then ''short'' else delay_type);
          base = the (map_of BASE_DELAYS delay_type);
          base_min = fst base;
          base_max = snd base;
          variance = get_or (realistic_timing_variance cfg) 0.3;
          min_delay = base_min * factor * (1 - variance + draw_min dr * variance * 2);
          max_delay = base_max * factor * (1 - variance + draw_max dr * variance * 2);
          min_delay = max 0.05 min_delay;
          max_delay = max (min_delay + 0.1) max_delay;
          factor = (if error_count session > 0
                    then factor * (1 + real_of_int (error_count session) * 0.2) else factor);
          factor = (if actions_count session > 50 then factor * 1.3 else factor);
          delay = uniform min_delay max_delay (draw_uniform dr)
      in \<lparr>slept = delay, logged_factor = factor\<rparr>)"

text \<open>A session just started, and the draws in the middle of their range.\<close>

definition fresh_session :: current_session where
  "fresh_session =
     \<lparr>phase = STARTUP, start_time = Some 0, actions_count = 0, request_count = 0,
      error_count = 0\<rparr>"

definition half_draws :: delay_draws where
  "half_draws = \<lparr>draw_min = 1/2, draw_max = 1/2, draw_uniform = 1/2\<rparr>"

definition low_draws :: delay_draws where
  "low_draws = \<lparr>draw_min = 0, draw_max = 0, draw_uniform = 1/2\<rparr>"

section \<open>Ban classifier (\<open>_check_ban_indicators\<close>)\<close>

text \<open>
  \<open>str.lower()\<close>: an ASCII capital becomes its small letter and every other ASCII
  character stays. Unicode case mapping is not part of the repository and can depend on
  the neighbours of a character, so what replaces the non-ASCII code point at index \<open>i\<close>
  of the string \<open>s\<close> is a parameter \<open>U s i\<close>.
\<close>

type_synonym unicode_lower = "pystr \<Rightarrow> nat \<Rightarrow> pystr"

fun lower_from :: "unicode_lower \<Rightarrow> pystr \<Rightarrow> nat \<Rightarrow> pystr \<Rightarrow> pystr" where
  "lower_from U s i [] = []"
| "lower_from U s i (c # cs) =
     (if 65 \<le> c \<and> c \<le> 90 then [c + 32] else if c < 128 then [c] else U s i)
     @ lower_from U s (Suc i) cs"

definition lower :: "unicode_lower \<Rightarrow> pystr \<Rightarrow> pystr" where
  "lower U s = lower_from U s 0 s"

text \<open>
  The response is a dictionary; the function reads its string form and whether it is
  empty. Python's \<open>repr\<close> is not part of the repository: a non-empty dictionary is
  represented by its string form, the empty one prints as \<open>{}\<close>.
\<close>

datatype response = EmptyDict | NonEmptyDict pystr

fun str_of :: "response \<Rightarrow> pystr" where
  "str_of EmptyDict = lit ''{}''"
| "str_of (NonEmptyDict s) = s"

definition BAN_INDICATORS :: "pystr list" where
  "BAN_INDICATORS =
     [lit ''rate_limited_until'', lit ''APPEAL_BAN'', lit ''account_disabled'',
      lit ''temporarily_unavailable'', lit ''too_many_requests'']"

text \<open>\<open>x in s\<close> on strings is \<open>sublist x s\<close>: \<open>x\<close> occurs in \<open>s\<close> as a contiguous piece.\<close>

definition indicator_severity :: "pystr \<Rightarrow> real" where
  "indicator_severity indicator =
     (if indicator \<in> set [lit ''APPEAL_BAN'', lit ''account_disabled''] then 1.0 else 0.7)"

definition check_ban_indicators :: "unicode_lower \<Rightarrow> response \<Rightarrow> real" where
  "check_ban_indicators U response =
     (let response_str = lower U (str_of response);
          ban_score =
            fold (\<lambda>indicator ban_score.
                    if sublist (lower U indicator) response_str
                    then ban_score + indicator_severity indicator else ban_score)
              BAN_INDICATORS 0.0;
          ban_score =
            (if sublist (lit ''rate_limited_until'') response_str
                \<or> sublist (lit ''too_many_requests'') response_str
             then ban_score + 0.5 else ban_score);
          ban_score = (if response = EmptyDict then ban_score + 0.2 else ban_score)
      in ban_score)"

text \<open>The threshold read with \<open>self.config.get('ban_detection_sensitivity', 0.8)\<close>.\<close>

definition sensitivity :: "config \<Rightarrow> real" where
  "sensitivity cfg = get_or (ban_detection_sensitivity cfg) 0.8"

text \<open>A piece of text that lowering leaves as it is: ASCII, without capitals.\<close>

definition plain :: "pystr \<Rightarrow> bool" where
  "plain p = (\<forall>c \<in> set p. c < 128 \<and> \<not> (65 \<le> c \<and> c \<le> 90))"

text \<open>A response naming the phrase, and a lowering that drops non-ASCII code points.\<close>

definition disabled_response :: response where
  "disabled_response = NonEmptyDict (lit ''{error: {code: 40303, message: account_disabled}}'')"

definition no_unicode :: unicode_lower where
  "no_unicode s i = []"

section \<open>Request-pattern executor (\<open>execute_request_pattern\<close>)\<close>

record request_pattern =
  endpoint :: string
  http_method :: string
  repeat_count :: int
  delay_range :: "real \<times> real"
  critical :: bool

definition RequestPattern :: "string \<Rightarrow> string \<Rightarrow> int \<Rightarrow> string \<Rightarrow> request_pattern" where
  "RequestPattern e m n delay_class =
     \<lparr>endpoint = e, http_method = m, repeat_count = n,
      delay_range = the (map_of BASE_DELAYS delay_class), critical = True\<rparr>"

definition REQUEST_PATTERNS :: "(string \<times> request_pattern list) list" where
  "REQUEST_PATTERNS =
     [(''startup'',
       [RequestPattern ''healthcheck_auth'' ''GET'' 1 ''micro'',
        RequestPattern ''buckets'' ''POST'' 1 ''short'',
        RequestPattern ''device_check'' ''GET'' 1 ''micro'',
        RequestPattern ''profile_consents'' ''POST'' 1 ''medium'',
        RequestPattern ''device_check'' ''GET'' 1 ''micro'',
        RequestPattern ''profile'' ''GET'' 1 ''short'',
        RequestPattern ''inbox_messages'' ''GET'' 1 ''micro'',
        RequestPattern ''matches'' ''GET'' 1 ''micro'',
        RequestPattern ''fast_match_count'' ''GET'' 1 ''short'',
        RequestPattern ''user_language_preferences'' ''POST'' 1 ''medium'',
        RequestPattern ''updates'' ''POST'' 1 ''short'',
        RequestPattern ''profile_meter'' ''GET'' 1 ''micro'',
        RequestPattern ''campaigns'' ''GET'' 1 ''short'',
        RequestPattern ''push_devices'' ''POST'' 2 ''micro'',
        RequestPattern ''meta_post'' ''POST'' 1 ''medium'']),
      (''profile_check'',
       [RequestPattern ''fast_match_count'' ''GET'' 1 ''micro'',
        RequestPattern ''profile_feature_access'' ''GET'' 1 ''micro'',
        RequestPattern ''payment_methods'' ''GET'' 1 ''micro'',
        RequestPattern ''my_likes'' ''GET'' 1 ''short'',
        RequestPattern ''duos'' ''GET'' 1 ''micro'',
        RequestPattern ''recommendations'' ''GET'' 3 ''short'',
        RequestPattern ''campaigns_extended'' ''GET'' 1 ''micro'',
        RequestPattern ''subscription_features'' ''GET'' 2 ''micro'']),
      (''liked_me_processing'',
       [RequestPattern ''fast_match_count'' ''GET'' 3 ''micro'',
        RequestPattern ''fast_match_newcount'' ''GET'' 1 ''micro'',
        RequestPattern ''liked_me_batch'' ''GET'' 1 ''short'',
        RequestPattern ''fast_match_teaser'' ''GET'' 1 ''micro'']),
      (''maintenance'',
       [RequestPattern ''updates'' ''POST'' 1 ''short'',
        RequestPattern ''received_messages'' ''GET'' 1 ''micro'',
        RequestPattern ''subscription_features'' ''GET'' 2 ''micro'',
        RequestPattern ''profile_meter'' ''GET'' 1 ''micro'',
        RequestPattern ''recommendations'' ''GET'' 1 ''short''])]"

text \<open>
  What the executor meets outside itself: the value of \<open>self.running\<close> each time it is
  read (a signal handler may clear it at any moment), and, for each call of
  \<open>_execute_single_request\<close> in order, whether it reported success and the response time
  measured. \<open>_execute_single_request\<close> and \<open>_log_request_timing\<close> catch every exception
  themselves and \<open>adaptive_delay\<close> raises none, so the handler inside the loop over the
  patterns is never entered and has no branch here.
\<close>

record executor_env =
  running_at :: "nat \<Rightarrow> bool"
  request_success :: "nat \<Rightarrow> bool"
  response_time_ms :: "nat \<Rightarrow> int"

text \<open>
  What the executor does, in order: a call of the wire client, a call of
  \<open>adaptive_delay\<close> with its delay class and context, and the two log lines for a failed
  request.
\<close>

datatype delay_context = RepeatOf string int | After string

datatype event =
    Request string string
  | Delay string delay_context
  | LogWarning string
  | LogDebug string

text \<open>
  The dictionary \<open>results\<close>, with the events so far and the two counters that index the
  environment.
\<close>

record executor_state =
  success :: bool
  requests_made :: int
  errors :: int
  timings :: "int list"
  trace :: "event list"
  polls :: nat
  calls :: nat

definition initial_results :: executor_state where
  "initial_results =
     \<lparr>success = True, requests_made = 0, errors = 0, timings = [], trace = [], polls = 0,
      calls = 0\<rparr>"

text \<open>\<open>range(n)\<close>\<close>

definition py_range :: "int \<Rightarrow> int list" where
  "py_range n = [0..n - 1]"

text \<open>One call of the wire client inside the loop over the repeats, up to the delay.\<close>

definition issue_request :: "executor_env \<Rightarrow> request_pattern \<Rightarrow> int \<Rightarrow> executor_state \<Rightarrow> executor_state" where
  "issue_request env pattern repeat st =
     (let ok = request_success env (calls st);
          st = st\<lparr>trace := trace st @ [Request (endpoint pattern) (http_method pattern)],
                  requests_made := requests_made st + 1,
                  timings := timings st @ [response_time_ms env (calls st)],
                  calls := calls st + 1\<rparr>;
          st = (if \<not> ok then
                  st\<lparr>errors := errors st + 1,
                     trace := trace st
                       @ [if critical pattern then LogWarning (endpoint pattern)
                          else LogDebug (endpoint pattern)]\<rparr>
                else st)
      in if repeat < repeat_count pattern - 1
         then st\<lparr>trace := trace st @ [Delay ''micro'' (RepeatOf (endpoint pattern) (repeat + 1))]\<rparr>
         else st)"

text \<open>The loop \<open>for repeat in range(pattern.repeat_count)\<close>, with its \<open>break\<close>.\<close>

fun repeat_loop ::
  "executor_env \<Rightarrow> request_pattern \<Rightarrow> int list \<Rightarrow> executor_state \<Rightarrow> executor_state" where
  "repeat_loop env pattern [] st = st"
| "repeat_loop env pattern (repeat # rest) st =
     (if \<not> running_at env (polls st) then st\<lparr>polls := polls st + 1\<rparr>
      else repeat_loop env pattern rest
             (issue_request env pattern repeat (st\<lparr>polls := polls st + 1\<rparr>)))"

text \<open>
  One pattern: its repeats, then the delay before the next pattern unless the pattern
  equals the last one of the list (\<open>pattern != patterns[-1]\<close> compares the values).
\<close>

definition run_pattern ::
  "executor_env \<Rightarrow> request_pattern \<Rightarrow> request_pattern \<Rightarrow> executor_state \<Rightarrow> executor_state" where
  "run_pattern env last_pattern pattern st =
     (let st = repeat_loop env pattern (py_range (repeat_count pattern)) st
      in if pattern \<noteq> last_pattern
         then st\<lparr>trace := trace st
                  @ [Delay (if critical pattern then ''short'' else ''micro'')
                       (After (endpoint pattern))]\<rparr>
         else st)"

text \<open>The loop \<open>for pattern in patterns\<close>, with its \<open>break\<close>.\<close>

fun pattern_loop ::
  "executor_env \<Rightarrow> request_pattern \<Rightarrow> request_pattern list \<Rightarrow> executor_state \<Rightarrow> executor_state" where
  "pattern_loop env last_pattern [] st = st"
| "pattern_loop env last_pattern (pattern # rest) st =
     (if \<not> running_at env (polls st) then st\<lparr>polls := polls st + 1\<rparr>
      else pattern_loop env last_pattern rest
             (run_pattern env last_pattern pattern (st\<lparr>polls := polls st + 1\<rparr>)))"

text \<open>
  \<open>execute_request_pattern\<close>: \<open>None\<close> is the result \<open>{'success': False, 'error': 'Unknown
  pattern'}\<close>; otherwise the results and the session with its two counters updated.
\<close>

definition execute_request_pattern ::
  "executor_env \<Rightarrow> current_session \<Rightarrow> string \<Rightarrow> (executor_state \<times> current_session) option" where
  "execute_request_pattern env session pattern_name =
     (case map_of REQUEST_PATTERNS pattern_name of
        None \<Rightarrow> None
      | Some patterns \<Rightarrow>
          (let results = pattern_loop env (last patterns) patterns initial_results
           in Some (results,
                    session\<lparr>request_count := request_count session + requests_made results,
                            error_count := error_count session + errors results\<rparr>)))"

text \<open>
  What C3 expects of one pattern: for the repeat \<open>i\<close>, which is the call number
  \<open>a\<close> of the run, the call of the wire client, after a failed one its log line (a
  warning for a critical pattern), and a delay of class \<open>micro\<close> when another repeat
  follows. \<open>c\<close> is the number of the pattern's first call.
\<close>

definition expected_call :: "executor_env \<Rightarrow> request_pattern \<Rightarrow> nat \<Rightarrow> nat \<Rightarrow> event list" where
  "expected_call env pattern a i =
     [Request (endpoint pattern) (http_method pattern)]
     @ (if request_success env a then []
        else [if critical pattern then LogWarning (endpoint pattern)
              else LogDebug (endpoint pattern)])
     @ (if int i < repeat_count pattern - 1
        then [Delay ''micro'' (RepeatOf (endpoint pattern) (int i + 1))] else [])"

definition expected_repeats :: "executor_env \<Rightarrow> request_pattern \<Rightarrow> nat \<Rightarrow> event list" where
  "expected_repeats env pattern c =
     concat (map (\<lambda>i. expected_call env pattern (c + i) i) [0..<nat (repeat_count pattern)])"

text \<open>The same for a list of patterns: every pattern in turn, none left out.\<close>

fun expected_patterns ::
  "executor_env \<Rightarrow> request_pattern \<Rightarrow> request_pattern list \<Rightarrow> nat \<Rightarrow> event list" where
  "expected_patterns env last_pattern [] c = []"
| "expected_patterns env last_pattern (pattern # rest) c =
     expected_repeats env pattern c
     @ (if pattern \<noteq> last_pattern
        then [Delay (if critical pattern then ''short'' else ''micro'') (After (endpoint pattern))]
        else [])
     @ expected_patterns env last_pattern rest (c + nat (repeat_count pattern))"

fun is_request :: "event \<Rightarrow> bool" where
  "is_request (Request e m) = True"
| "is_request _ = False"

fun is_repeat_delay :: "event \<Rightarrow> bool" where
  "is_repeat_delay (Delay cls (RepeatOf e k)) = (cls = ''micro'')"
| "is_repeat_delay _ = False"

text \<open>The calls a list of patterns asks for, when nothing stops the executor.\<close>

definition total_calls :: "request_pattern list \<Rightarrow> nat" where
  "total_calls patterns = sum_list (map (\<lambda>p. nat (repeat_count p)) patterns)"

text \<open>The delays between repeats it asks for: one less than the repeat count, per pattern.\<close>

definition total_repeat_delays :: "request_pattern list \<Rightarrow> nat" where
  "total_repeat_delays patterns = sum_list (map (\<lambda>p. nat (repeat_count p - 1)) patterns)"

text \<open>An environment that never stops the run and in which every request fails.\<close>

definition all_failing :: executor_env where
  "all_failing = \<lparr>running_at = (\<lambda>k. True), request_success = (\<lambda>k. False),
                   response_time_ms = (\<lambda>k. 120)\<rparr>"

definition liked_me_patterns :: "request_pattern list" where
  "liked_me_patterns = the (map_of REQUEST_PATTERNS ''liked_me_processing'')"

definition triple_check :: request_pattern where
  "triple_check = hd liked_me_patterns"

section \<open>Queue batch processor (\<open>process_all_liked_me_enhanced\<close>)\<close>

text \<open>
  An entry of a page: of \<open>user_data\<close> the processor reads \<open>user_data["user"]["_id"]\<close>,
  \<open>None\<close> when the id or the whole \<open>"user"\<close> is absent; the photo id, content hash and
  \<open>s_number\<close> only travel into the like request. \<open>user_null\<close> says that \<open>"user"\<close> is
  present but \<open>None\<close>: then \<open>user.get("_id")\<close> raises \<open>AttributeError\<close>.
\<close>

record user_data =
  uid :: "pystr option"
  user_null :: bool

text \<open>
  What \<open>api.like_user\<close> gives: \<open>False\<close>, \<open>True\<close> or \<open>"match"\<close>; \<open>LikeRaised\<close> stands for an
  exception in \<open>_process_single_liked_user\<close> after \<open>user_id\<close> is read and before the result
  is assigned: its handler returns the initial result.
\<close>

datatype like_outcome = LikeFalse | LikeTrue | LikeMatch | LikeRaised

text \<open>
  The outside of one run: the number \<open>random.randint(1, 3)\<close> of initial count requests,
  what the \<open>k\<close>-th call of \<open>api.liked_me_count\<close> and of \<open>api.liked_me\<close> returns, the value
  of \<open>datetime.now() < session_end_time and self.running\<close> the \<open>k\<close>-th time it is
  evaluated, and the result of liking a user.
\<close>

record queue_env =
  count_draw :: nat
  count_result :: "nat \<Rightarrow> int option"
  page_result :: "nat \<Rightarrow> user_data list option"
  may_continue :: "nat \<Rightarrow> bool"
  like_result :: "pystr \<Rightarrow> like_outcome"

datatype queue_event =
    CountFetch
  | PageFetch
  | PageSleep
  | LogBatch nat
  | Like pystr like_outcome
  | GetUpdates
  | LikeSleep
  | CacheWrite int

text \<open>
  The dictionary \<open>stats\<close>, the locals of the loops, the session's action counter, and
  what was done, in order. \<open>CacheWrite n\<close> is \<open>_update_cached_liked_count(account_id, n)\<close>.
\<close>

record queue_state =
  users_processed :: int
  likes_sent :: int
  passes_sent :: int
  matches_gained :: int
  api_calls_made :: int
  cycles_completed :: int
  total_available :: int
  batch_likes :: int
  batch_passes :: int
  batch_matches :: int
  processed_user_ids :: "pystr set"
  checks :: nat
  fetches :: nat
  session_actions :: int
  history :: "queue_event list"

definition initial_stats :: "int \<Rightarrow> queue_state" where
  "initial_stats actions =
     \<lparr>users_processed = 0, likes_sent = 0, passes_sent = 0, matches_gained = 0,
      api_calls_made = 0, cycles_completed = 0, total_available = 0, batch_likes = 0,
      batch_passes = 0, batch_matches = 0, processed_user_ids = {}, checks = 0, fetches = 0,
      session_actions = actions, history = []\<rparr>"

text \<open>How a loop is left: in the regular way, or by an exception on its way to the handler.\<close>

datatype queue_exit = LoopLeft queue_state | LoopRaised queue_state

text \<open>
  The result of \<open>_process_single_liked_user\<close>. \<open>None\<close>: an exception leaves the function.
  That happens for a \<open>"user"\<close> that is \<open>None\<close>: \<open>user.get\<close> raises before \<open>user_id\<close> is
  assigned, and the handler's log line, which prints \<open>user_id\<close>, raises in turn.
\<close>

record like_action =
  action :: "string option"
  matched :: bool
  liked_ok :: bool

definition no_action :: like_action where
  "no_action = \<lparr>action = None, matched = False, liked_ok = False\<rparr>"

definition process_single_liked_user ::
  "queue_env \<Rightarrow> user_data \<Rightarrow> queue_state \<Rightarrow> (like_action \<times> queue_state) option" where
  "process_single_liked_user env u st =
     (if user_null u then None
      else if \<not> truthy (uid u) then Some (no_action, st)
      else
        (let user_id = the (uid u);
             outcome = like_result env user_id;
             st = st\<lparr>history := history st @ [Like user_id outcome]\<rparr>
         in if outcome = LikeRaised then Some (no_action, st)
            else
              (let is_match = (outcome = LikeMatch);
                   actual_success = (outcome \<noteq> LikeFalse);
                   st = (if is_match then st\<lparr>history := history st @ [GetUpdates]\<rparr> else st);
                   st = st\<lparr>session_actions := session_actions st + 1\<rparr>
               in Some (\<lparr>action = Some ''like'', matched = is_match,
                         liked_ok = actual_success\<rparr>,
                        st))))"

text \<open>The loop over the new users of a page, with its two \<open>break\<close>s.\<close>

fun user_loop :: "queue_env \<Rightarrow> config \<Rightarrow> user_data list \<Rightarrow> queue_state \<Rightarrow> queue_exit" where
  "user_loop env cfg [] st = LoopLeft st"
| "user_loop env cfg (u # rest) st =
     (if \<not> may_continue env (checks st) then LoopLeft (st\<lparr>checks := checks st + 1\<rparr>)
      else
        (case process_single_liked_user env u (st\<lparr>checks := checks st + 1\<rparr>) of
           None \<Rightarrow> LoopRaised (st\<lparr>checks := checks st + 1\<rparr>)
         | Some r \<Rightarrow>
             (let result = fst r;
                  st = snd r;
                  st = (if action result = Some ''like'' then
                          st\<lparr>batch_likes := batch_likes st + 1,
                             batch_matches := batch_matches st
                               + (if matched result then 1 else 0)\<rparr>
                        else if action result = Some ''pass'' then
                          st\<lparr>batch_passes := batch_passes st + 1\<rparr>
                        else st);
                  st = st\<lparr>users_processed := users_processed st + 1\<rparr>
              in if likes_sent st + batch_likes st \<ge> max_likes_per_session cfg then LoopLeft st
                 else user_loop env cfg rest
                        (if action result \<in> set [Some ''like'', Some ''pass'']
                         then st\<lparr>history := history st @ [LikeSleep]\<rparr> else st))))"

text \<open>
  The filter of a page: the entries with an id not seen before in this run, each id
  joining the set as it is met. \<open>None\<close>: an entry whose \<open>"user"\<close> is \<open>None\<close> made it raise.
\<close>

fun new_users_of :: "user_data list \<Rightarrow> pystr set \<Rightarrow> (user_data list \<times> pystr set) option" where
  "new_users_of [] seen = Some ([], seen)"
| "new_users_of (u # rest) seen =
     (if user_null u then None
      else if truthy (uid u) \<and> the (uid u) \<notin> seen then
        (case new_users_of rest (insert (the (uid u)) seen) of
           None \<Rightarrow> None
         | Some r \<Rightarrow> Some (u # fst r, snd r))
      else new_users_of rest seen)"

text \<open>
  The \<open>while\<close> loop over the pages. It may run as long as the remote keeps sending new
  users, so it takes fuel: \<open>None\<close> when the fuel is used up before the loop is left.
\<close>

fun page_loop :: "nat \<Rightarrow> queue_env \<Rightarrow> config \<Rightarrow> queue_state \<Rightarrow> queue_exit option" where
  "page_loop 0 env cfg st = None"
| "page_loop (Suc fuel) env cfg st =
     (if \<not> may_continue env (checks st) then Some (LoopLeft (st\<lparr>checks := checks st + 1\<rparr>))
      else
        (let liked_users = page_result env (fetches st);
             st = st\<lparr>checks := checks st + 1, fetches := fetches st + 1,
                     api_calls_made := api_calls_made st + 1,
                     history := history st @ [PageFetch, PageSleep]\<rparr>
         in if liked_users = None \<or> liked_users = Some [] then Some (LoopLeft st)
            else
              (case new_users_of (the liked_users) (processed_user_ids st) of
                 None \<Rightarrow> Some (LoopRaised st)
               | Some f \<Rightarrow>
                   (let new_users = fst f;
                        st = st\<lparr>processed_user_ids := snd f\<rparr>
                    in if new_users = [] then Some (LoopLeft st)
                       else
                         (case user_loop env cfg new_users
                                 (st\<lparr>history := history st @ [LogBatch (length new_users)],
                                     batch_likes := 0, batch_passes := 0, batch_matches := 0\<rparr>) of
                            LoopRaised st \<Rightarrow> Some (LoopRaised st)
                          | LoopLeft st \<Rightarrow>
                              (let st = st\<lparr>likes_sent := likes_sent st + batch_likes st,
                                           passes_sent := passes_sent st + batch_passes st,
                                           matches_gained := matches_gained st + batch_matches st,
                                           cycles_completed := cycles_completed st + 1\<rparr>
                               in if likes_sent st \<ge> max_likes_per_session cfg
                                  then Some (LoopLeft st)
                                  else if \<not> get_or (process_all_liked_me cfg) True
                                  then Some (LoopLeft st)
                                  else if total_available st - users_processed st \<le> 0
                                  then Some (LoopLeft st)
                                  else page_loop fuel env cfg st))))))"

text \<open>The initial count requests: the last answer that is not \<open>None\<close> is kept.\<close>

fun count_loop :: "queue_env \<Rightarrow> nat list \<Rightarrow> queue_state \<Rightarrow> queue_state" where
  "count_loop env [] st = st"
| "count_loop env (i # rest) st =
     (let liked_me_count = count_result env i;
          st = st\<lparr>api_calls_made := api_calls_made st + 1, history := history st @ [CountFetch]\<rparr>
      in count_loop env rest
           (case liked_me_count of
              None \<Rightarrow> st
            | Some n \<Rightarrow> st\<lparr>total_available := n\<rparr>))"

text \<open>
  \<open>process_all_liked_me_enhanced\<close>; \<open>None\<close> when the fuel did not reach the end of the
  loop. After the loop the cached count is written: 0 when nothing is available, else
  \<open>max(0, total_available - users_processed)\<close>. When an exception leaves the loop, the
  function's handler logs it and returns the stats as they are, without that write.
\<close>

definition process_all_liked_me_enhanced ::
  "nat \<Rightarrow> queue_env \<Rightarrow> config \<Rightarrow> int \<Rightarrow> queue_state option" where
  "process_all_liked_me_enhanced fuel env cfg actions =
     (let st = count_loop env [0..<count_draw env] (initial_stats actions)
      in if total_available st = 0 then Some (st\<lparr>history := history st @ [CacheWrite 0]\<rparr>)
         else
           (case page_loop fuel env cfg st of
              None \<Rightarrow> None
            | Some (LoopRaised st) \<Rightarrow> Some st
            | Some (LoopLeft st) \<Rightarrow>
                (let remaining_count = total_available st - users_processed st
                 in Some (st\<lparr>history := history st @ [CacheWrite (max 0 remaining_count)]\<rparr>))))"

text \<open>Reading what was done: the like requests, and those the remote accepted.\<close>

fun like_calls :: "queue_event list \<Rightarrow> (pystr \<times> like_outcome) list" where
  "like_calls [] = []"
| "like_calls (Like i out # rest) = (i, out) # like_calls rest"
| "like_calls (e # rest) = like_calls rest"

text \<open>The id of an entry that has one, and the like request made for it.\<close>

definition ident :: "user_data \<Rightarrow> pystr" where
  "ident u = the (uid u)"





text \<open>
  A remote with 25 users, handed out in one page, which keeps answering 25 to the count
  request; the session may always go on; the third like is refused in \<open>third_like_refused\<close>.
\<close>

definition sample_user :: "nat \<Rightarrow> user_data" where
  "sample_user n = \<lparr>uid = Some [117, n], user_null = False\<rparr>"

definition queue_of_25 :: queue_env where
  "queue_of_25 =
     \<lparr>count_draw = 3, count_result = (\<lambda>k. Some 25),
      page_result = (\<lambda>k. if k = 0 then Some (map sample_user [0..<25]) else Some []),
      may_continue = (\<lambda>k. True), like_result = (\<lambda>i. LikeTrue)\<rparr>"


definition ten_likes :: config where
  "ten_likes = default_config\<lparr>max_likes_per_session := 10\<rparr>"

text \<open>The same 25 users handed out in two pages, of 7 and of 18.\<close>

definition two_pages :: "user_data list list" where
  "two_pages = [map sample_user [0..<7], map sample_user [7..<25]]"

definition queue_in_two_pages :: queue_env where
  "queue_in_two_pages =
     queue_of_25\<lparr>page_result := (\<lambda>k. if k < 2 then Some (two_pages ! k) else Some [])\<rparr>"

text \<open>
  A run that has processed two of 25 users, and a remote that sends these two again.
\<close>

definition two_seen :: queue_state where
  "two_seen =
     (initial_stats 0)\<lparr>total_available := 25, users_processed := 2, likes_sent := 2,
        api_calls_made := 4, cycles_completed := 1, fetches := 1, checks := 3,
        processed_user_ids := {[117, 0], [117, 1]}\<rparr>"

definition same_page_again :: queue_env where
  "same_page_again =
     queue_of_25\<lparr>page_result := (\<lambda>k. Some [sample_user 0, sample_user 1])\<rparr>"

text \<open>A remote whose first page holds an entry with \<open>None\<close> for its \<open>"user"\<close>.\<close>

definition null_user_page :: queue_env where
  "null_user_page =
     queue_of_25\<lparr>count_draw := 1,
       page_result := (\<lambda>k. Some [sample_user 0, \<lparr>uid = None, user_null = True\<rparr>])\<rparr>"

text \<open>The limit of 10 with \<open>process_all_liked_me\<close> switched off.\<close>

definition first_page_only :: config where
  "first_page_only = ten_likes\<lparr>process_all_liked_me := Some False\<rparr>"

section \<open>Session orchestrator (\<open>process_single_account_enhanced\<close>)\<close>

subsection \<open>The store and the run's state\<close>

text \<open>A row of the table \<open>enhanced_sessions\<close>; \<open>row_end = None\<close> is the SQL \<open>NULL\<close>.\<close>

record session_row =
  row_id :: nat
  row_account :: nat
  row_start :: nat
  row_end :: "nat option"
  row_duration :: "int option"
  row_requests :: int
  row_likes :: int
  row_passes :: int
  row_matches :: int
  row_errors :: int
  row_quality :: "real option"

text \<open>The dictionary \<open>session_stats\<close> of the run.\<close>

record session_stats =
  stat_likes_sent :: int
  stat_passes_sent :: int
  stat_matches_gained :: int
  stat_users_processed :: int
  stat_api_calls_made :: int
  phases_completed :: "string list"

definition empty_stats :: session_stats where
  "empty_stats =
     \<lparr>stat_likes_sent = 0, stat_passes_sent = 0, stat_matches_gained = 0,
      stat_users_processed = 0, stat_api_calls_made = 0, phases_completed = []\<rparr>"

text \<open>
  What a run reads and writes: the session table, the account's columns the run
  touches (\<open>status_phase\<close> is \<open>account_status.current_session_phase\<close>),
  \<open>self.current_session\<close>, the local \<open>session_stats\<close>, and two counters: the
  readings of the clock and the calls of \<open>end_enhanced_session\<close> so far.
\<close>

record world =
  sessions :: "session_row list"
  current :: current_session
  stats :: session_stats
  status_phase :: session_phase
  account_banned :: bool
  cached_liked_count :: "int option"
  last_liked_me_check :: "int option"
  session_count :: int
  total_requests :: int
  total_likes :: int
  ticks :: nat
  end_calls :: nat

record account =
  acc_id :: nat
  acc_liked_me_count :: int
  names_known :: bool

text \<open>
  A call the run makes either returns or raises. Every call below is given both, also
  where the callee catches its own exceptions in the source: what is proved then holds
  whatever a callee does.
\<close>

datatype 'a outcome = Returns 'a | Raises py_exception

text \<open>
  The outside of one run: whether the store accepts the insert of the session row and
  the \<open>k\<close>-th update by \<open>end_enhanced_session\<close>, the clock, the draw of the session
  duration (\<open>random.randint\<close> raises when the configured minimum exceeds the maximum),
  whether \<open>_initialize_api\<close> gave a client, and the outcome of each call of the phases:
  the startup pattern (success, requests made, errors), \<open>api.profile()\<close> (is there
  profile data), the Gold check, the two calls of \<open>api.liked_me_count()\<close>,
  \<open>should_check_likes_for_account\<close>, \<open>_profile_needs_update\<close>,
  \<open>smart_update_profile_enhanced\<close>, \<open>process_all_liked_me_enhanced\<close>, the username
  tracking and the final summary.
\<close>

record orch_env =
  db_insert_ok :: bool
  db_update_ok :: "nat \<Rightarrow> bool"
  clock_reading :: "nat \<Rightarrow> nat"
  duration_draw :: "nat outcome"
  api_initialized :: bool
  startup :: "(bool \<times> int \<times> int) outcome"
  profile_data :: "bool outcome"
  gold :: bool
  first_count :: "int option outcome"
  should_check :: "bool outcome"
  second_count :: "int option outcome"
  needs_update :: bool
  profile_update :: "bool outcome"
  liking :: "queue_state outcome"
  tracking :: "unit outcome"
  summary :: "unit outcome"

subsection \<open>Starting and ending a session\<close>

text \<open>\<open>lastrowid\<close> of an \<open>AUTOINCREMENT\<close> key: above every id in the table, and not 0.\<close>

definition fresh_id :: "session_row list \<Rightarrow> nat" where
  "fresh_id rows = Suc (fold max (map row_id rows) 0)"

definition now :: "orch_env \<Rightarrow> world \<Rightarrow> nat" where
  "now env w = clock_reading env (ticks w)"

definition tick :: "world \<Rightarrow> world" where
  "tick w = w\<lparr>ticks := ticks w + 1\<rparr>"

text \<open>
  \<open>start_enhanced_session\<close>: the session state is reset, then the row is inserted and
  its id returned; when the store raises, the handler returns 0.
\<close>

definition start_enhanced_session :: "orch_env \<Rightarrow> nat \<Rightarrow> world \<Rightarrow> nat \<times> world" where
  "start_enhanced_session env account_id w =
     (let session_start = now env w;
          w = tick w;
          w = w\<lparr>current := \<lparr>phase = STARTUP, start_time = Some session_start,
                             actions_count = 0, request_count = 0, error_count = 0\<rparr>\<rparr>
      in if db_insert_ok env then
           (let session_id = fresh_id (sessions w)
            in (session_id,
                w\<lparr>sessions := sessions w
                     @ [\<lparr>row_id = session_id, row_account = account_id,
                         row_start = session_start, row_end = None, row_duration = None,
                         row_requests = 0, row_likes = 0, row_passes = 0, row_matches = 0,
                         row_errors = 0, row_quality = None\<rparr>],
                   status_phase := STARTUP,
                   session_count := session_count w + 1\<rparr>))
         else (0, w))"

text \<open>\<open>_calculate_session_quality\<close>, with the session duration it reads off the clock.\<close>

definition calculate_session_quality ::
  "config \<Rightarrow> current_session \<Rightarrow> session_stats \<Rightarrow> int \<Rightarrow> real" where
  "calculate_session_quality cfg session st session_duration =
     (let score = 1.0;
          score = (if error_count session > 0
                   then score - (real_of_int (error_count session)
                                   / real_of_int (max (request_count session) 1)) * 0.5
                   else score);
          score = (if stat_likes_sent st = 0 then score - 0.3
                   else if stat_likes_sent st > max_likes_per_session cfg then score - 0.2
                   else score);
          score = (if stat_matches_gained st > 0
                   then score + min (real_of_int (stat_matches_gained st) * 0.1) 0.3
                   else score);
          score = (if session_duration < 300 then score - 0.2
                   else if session_duration > 3600 then score - 0.1
                   else score)
      in max 0.0 (min 1.0 score))"

text \<open>The \<open>UPDATE enhanced_sessions ... WHERE id = ?\<close> of \<open>end_enhanced_session\<close>.\<close>

definition close_row ::
  "nat \<Rightarrow> nat \<Rightarrow> int \<Rightarrow> current_session \<Rightarrow> session_stats \<Rightarrow> real \<Rightarrow> session_row \<Rightarrow> session_row" where
  "close_row session_id session_end duration session st quality r =
     (if row_id r = session_id then
        r\<lparr>row_end := Some session_end, row_duration := Some duration,
           row_requests := request_count session, row_likes := stat_likes_sent st,
           row_passes := stat_passes_sent st, row_matches := stat_matches_gained st,
           row_errors := error_count session, row_quality := Some quality\<rparr>
      else r)"

text \<open>
  \<open>end_enhanced_session(account_id, session_id, stats)\<close>. Everything is inside the
  function's handler: a session that was never started (no start time) or a store that
  raises leaves the tables as they are, and the function returns all the same. The
  phase \<open>cooldown\<close> goes to the account's row only; \<open>self.current_session\<close> is read,
  never assigned.
\<close>

definition end_enhanced_session ::
  "orch_env \<Rightarrow> config \<Rightarrow> nat \<Rightarrow> session_stats \<Rightarrow> world \<Rightarrow> world" where
  "end_enhanced_session env cfg session_id st w =
     (let call = end_calls w;
          w = w\<lparr>end_calls := end_calls w + 1\<rparr>;
          session_end = now env w;
          w = tick w
      in case start_time (current w) of
           None \<Rightarrow> w
         | Some t0 \<Rightarrow>
             (let duration = int session_end - int t0;
                  quality = calculate_session_quality cfg (current w) st
                              (int (now env w) - int t0);
                  w = tick w
              in if db_update_ok env call then
                   w\<lparr>sessions :=
                        map (close_row session_id session_end duration (current w) st quality)
                          (sessions w),
                      status_phase := COOLDOWN,
                      total_requests := total_requests w + request_count (current w),
                      total_likes := total_likes w + stat_likes_sent st\<rparr>
                 else w))"

subsection \<open>The phases\<close>

text \<open>
  \<open>transition_session_phase\<close>: the new phase is recorded, in the session state and in
  the account's row; the delay that follows only lets time pass. The other writes of
  the phases to the account's row:
\<close>

definition transition_session_phase :: "session_phase \<Rightarrow> world \<Rightarrow> world" where
  "transition_session_phase new_phase w =
     (if phase (current w) = new_phase then w
      else tick (w\<lparr>current := (current w)\<lparr>phase := new_phase\<rparr>,
                   status_phase := new_phase\<rparr>))"

definition mark_account_banned :: "world \<Rightarrow> world" where
  "mark_account_banned w = w\<lparr>account_banned := True\<rparr>"

definition update_cached_liked_count :: "int \<Rightarrow> world \<Rightarrow> world" where
  "update_cached_liked_count n w = w\<lparr>cached_liked_count := Some n\<rparr>"

definition update_liked_me_check :: "int \<Rightarrow> world \<Rightarrow> world" where
  "update_liked_me_check n w = w\<lparr>cached_liked_count := Some n, last_liked_me_check := Some n\<rparr>"

definition phase_completed :: "string \<Rightarrow> world \<Rightarrow> world" where
  "phase_completed name w =
     w\<lparr>stats := (stats w)\<lparr>phases_completed := phases_completed (stats w) @ [name]\<rparr>\<rparr>"

definition startup_counted :: "int \<Rightarrow> int \<Rightarrow> world \<Rightarrow> world" where
  "startup_counted made errs w =
     w\<lparr>current := (current w)\<lparr>request_count := request_count (current w) + made,
                               error_count := error_count (current w) + errs\<rparr>,
        stats := (stats w)\<lparr>stat_api_calls_made := stat_api_calls_made (stats w) + made\<rparr>\<rparr>"

definition merge_like_stats :: "queue_state \<Rightarrow> world \<Rightarrow> world" where
  "merge_like_stats like_stats w =
     w\<lparr>stats := (stats w)
          \<lparr>stat_likes_sent := stat_likes_sent (stats w) + likes_sent like_stats,
           stat_passes_sent := stat_passes_sent (stats w) + passes_sent like_stats,
           stat_matches_gained := stat_matches_gained (stats w) + matches_gained like_stats,
           stat_users_processed := stat_users_processed (stats w) + users_processed like_stats,
           stat_api_calls_made := stat_api_calls_made (stats w) + api_calls_made like_stats,
           phases_completed := phases_completed (stats w) @ [''liking'']\<rparr>\<rparr>"

text \<open>
  How the \<open>try\<close> block is left: at its end, by a \<open>return\<close>, or by an exception.
\<close>

datatype exit = Completed | Returned | Raised py_exception

text \<open>The end of the block: the username tracking and the summary.\<close>

definition summary_phase :: "orch_env \<Rightarrow> account \<Rightarrow> world \<Rightarrow> exit \<times> world" where
  "summary_phase env acct w =
     (case (if stat_users_processed (stats w) > 0 \<and> names_known acct then tracking env
            else Returns ()) of
        Raises e \<Rightarrow> (Raised e, w)
      | Returns _ \<Rightarrow>
          (case summary env of
             Raises e \<Rightarrow> (Raised e, w)
           | Returns _ \<Rightarrow> (Completed, w)))"

text \<open>
  Phase 3, liking. \<open>liked_me_count\<close> is \<open>None\<close> when the second count request gave
  nothing: the comparison \<open>liked_me_count > 0\<close> then raises \<open>TypeError\<close>.
\<close>

definition liking_phase ::
  "orch_env \<Rightarrow> config \<Rightarrow> account \<Rightarrow> int option \<Rightarrow> world \<Rightarrow> exit \<times> world" where
  "liking_phase env cfg acct liked_me_count w =
     (if \<not> like_users_who_liked_me cfg then summary_phase env acct w
      else
        (case liked_me_count of
           None \<Rightarrow> (Raised TypeError, w)
         | Some n \<Rightarrow>
             if n > 0 then
               (let w = transition_session_phase LIKING w
                in case liking env of
                     Raises e \<Rightarrow> (Raised e, w)
                   | Returns like_stats \<Rightarrow> summary_phase env acct (merge_like_stats like_stats w))
             else summary_phase env acct w))"

text \<open>Phase 2, the profile update, when the profile needs one.\<close>

definition update_phase ::
  "orch_env \<Rightarrow> config \<Rightarrow> account \<Rightarrow> int option \<Rightarrow> world \<Rightarrow> exit \<times> world" where
  "update_phase env cfg acct liked_me_count w =
     (if needs_update env then
        (let w = transition_session_phase PROFILE_UPDATE w
         in case profile_update env of
              Raises e \<Rightarrow> (Raised e, w)
            | Returns profile_updated \<Rightarrow>
                liking_phase env cfg acct liked_me_count
                  (phase_completed ''profile_update'' (if profile_updated then tick w else w)))
      else liking_phase env cfg acct liked_me_count w)"

text \<open>The branch for an account without likes.\<close>

definition no_likes_branch ::
  "orch_env \<Rightarrow> config \<Rightarrow> account \<Rightarrow> nat \<Rightarrow> world \<Rightarrow> exit \<times> world" where
  "no_likes_branch env cfg acct session_id w =
     (case should_check env of
        Raises e \<Rightarrow> (Raised e, w)
      | Returns True \<Rightarrow>
          (case second_count env of
             Raises e \<Rightarrow> (Raised e, w)
           | Returns liked_me_count \<Rightarrow>
               update_phase env cfg acct liked_me_count
                 (case liked_me_count of
                    None \<Rightarrow> w
                  | Some n \<Rightarrow> update_liked_me_check n w))
      | Returns False \<Rightarrow>
          (let w = transition_session_phase PROFILE_UPDATE w
           in case profile_update env of
                Raises e \<Rightarrow> (Raised e, w)
              | Returns profile_updated \<Rightarrow>
                  (let w = phase_completed ''profile_update''
                             (if profile_updated then tick w else w)
                   in (Returned, end_enhanced_session env cfg session_id (stats w) w))))"

text \<open>The \<open>try\<close> block, from the startup pattern on.\<close>

definition session_body ::
  "orch_env \<Rightarrow> config \<Rightarrow> account \<Rightarrow> nat \<Rightarrow> world \<Rightarrow> exit \<times> world" where
  "session_body env cfg acct session_id w =
     (let w = transition_session_phase STARTUP w
      in case startup env of
           Raises e \<Rightarrow> (Raised e, w)
         | Returns (ok, made, errs) \<Rightarrow>
             (let w = phase_completed ''startup'' (startup_counted made errs w)
              in if \<not> ok \<or> errs > 2 then (Returned, w)
                 else
                   (case profile_data env of
                      Raises e \<Rightarrow> (Raised e, w)
                    | Returns False \<Rightarrow>
                        (Returned, end_enhanced_session env cfg session_id (stats w) w)
                    | Returns True \<Rightarrow>
                        if \<not> gold env then
                          (let w = mark_account_banned w
                           in (Returned, end_enhanced_session env cfg session_id (stats w) w))
                        else
                          (case first_count env of
                             Raises e \<Rightarrow> (Raised e, w)
                           | Returns c \<Rightarrow>
                               if c \<noteq> None \<and> c \<noteq> Some (acc_liked_me_count acct) then
                                 (if c = Some 0
                                  then no_likes_branch env cfg acct session_id
                                         (update_cached_liked_count (the c) w)
                                  else update_phase env cfg acct c
                                         (update_cached_liked_count (the c) w))
                               else if acc_liked_me_count acct = 0
                               then no_likes_branch env cfg acct session_id w
                               else update_phase env cfg acct (Some (acc_liked_me_count acct)) w))))"

text \<open>
  \<open>process_single_account_enhanced\<close>. \<open>Inl e\<close>: the exception \<open>e\<close> leaves the function
  (only the draw of the duration, before the \<open>try\<close>, can do that). Inside the \<open>try\<close>,
  \<open>except Exception\<close> catches whatever the block raised, and \<open>finally\<close> ends the
  session in all three ways of leaving the block.
\<close>

definition process_single_account_enhanced ::
  "orch_env \<Rightarrow> config \<Rightarrow> account \<Rightarrow> world \<Rightarrow> py_exception + world" where
  "process_single_account_enhanced env cfg acct w =
     (let s = start_enhanced_session env (acc_id acct) w;
          session_id = fst s;
          w = snd s
      in if session_id = 0 then Inr w
         else
           (case duration_draw env of
              Raises e \<Rightarrow> Inl e
            | Returns session_duration \<Rightarrow>
                if \<not> api_initialized env
                then Inr (end_enhanced_session env cfg session_id empty_stats w)
                else
                  (let w = w\<lparr>stats := empty_stats\<rparr>;
                       b = session_body env cfg acct session_id w;
                       w = snd b
                   in Inr (end_enhanced_session env cfg session_id (stats w) w))))"

text \<open>The rows of a session, and whether they all carry an end time.\<close>

definition rows_of :: "nat \<Rightarrow> world \<Rightarrow> session_row list" where
  "rows_of session_id w = filter (\<lambda>r. row_id r = session_id) (sessions w)"

definition ended :: "session_row \<Rightarrow> bool" where
  "ended r = (row_end r \<noteq> None)"

text \<open>What no phase changes: the ids of the session rows and the session's start time.\<close>

definition footprint :: "world \<Rightarrow> nat list \<times> nat option" where
  "footprint w = (map row_id (sessions w), start_time (current w))"

text \<open>
  A store with one closed session of another account; a Gold account with five likes
  whose profile needs an update; and two runs: one in which the profile update raises,
  one in which the liking raises.
\<close>

definition old_row :: session_row where
  "old_row =
     \<lparr>row_id = 7, row_account = 2, row_start = 10, row_end = Some 900, row_duration = Some 890,
      row_requests = 40, row_likes = 12, row_passes = 0, row_matches = 1, row_errors = 0,
      row_quality = Some 1\<rparr>"

definition store :: world where
  "store =
     \<lparr>sessions = [old_row], current = fresh_session, stats = empty_stats,
      status_phase = COOLDOWN, account_banned = False, cached_liked_count = None, last_liked_me_check = None,
      session_count = 3, total_requests = 100, total_likes = 20, ticks = 0, end_calls = 0\<rparr>"

definition gold_account :: account where
  "gold_account = \<lparr>acc_id = 1, acc_liked_me_count = 5, names_known = True\<rparr>"

definition liking_raises :: orch_env where
  "liking_raises =
     \<lparr>db_insert_ok = True, db_update_ok = (\<lambda>k. True), clock_reading = (\<lambda>k. 1000 + 60 * k),
      duration_draw = Returns 900, api_initialized = True,
      startup = Returns (True, 16, 0), profile_data = Returns True, gold = True,
      first_count = Returns (Some 5), should_check = Returns False,
      second_count = Returns None, needs_update = True, profile_update = Returns True,
      liking = Raises OtherError, tracking = Returns (), summary = Returns ()\<rparr>"

definition update_raises :: orch_env where
  "update_raises = liking_raises\<lparr>profile_update := Raises KeyError\<rparr>"

chapter \<open>Properties\<close>

section \<open>Login codec\<close>

text \<open>
  C7: encoding the refresh token \<open>abc\<close> gives the tag of field 10 (length-delimited), the
  length 5, and inside it the tag of field 1 (length-delimited), the length 3 and the
  three bytes of the token; decoding the hand-built response whose field 8 holds the
  sub-fields 2 = \<open>AUTH1\<close>, 1 = \<open>REFRESH1\<close>, 4 = \<open>UID1\<close> gives the success result with these
  three tokens.
\<close>

theorem login_codec_round_trip:
  "encode_refresh_auth_protobuf (lit ''abc'')
     = Inr (field_tag 10 2 # 5 # field_tag 1 2 # 3 # ascii_bytes ''abc'')
   \<and> parse_auth_response_manual hand_built_response
     = Success \<lparr>auth_token = Some (lit ''AUTH1''),
                 refresh_token = Some (lit ''REFRESH1''),
                 user_id = Some (lit ''UID1'')\<rparr>"
proof
  show "encode_refresh_auth_protobuf (lit ''abc'')
          = Inr (field_tag 10 2 # 5 # field_tag 1 2 # 3 # ascii_bytes ''abc'')"
    by code_simp
  show "parse_auth_response_manual hand_built_response
          = Success \<lparr>auth_token = Some (lit ''AUTH1''),
                      refresh_token = Some (lit ''REFRESH1''),
                      user_id = Some (lit ''UID1'')\<rparr>"
    by code_simp
qed

subsection \<open>The error field\<close>










text \<open>
  The loop over the error message skips a sub-field that is not length-delimited by a
  single byte; it has no branch for varints, unlike the loops over the response and over
  the login result. With the varint 150 (two bytes) as sub-field 2 before the message,
  the loop loses its place and the message comes out cut.
\<close>

lemma error_loop_skips_one_byte_of_a_varint:
  "parse_auth_response_manual
     ([0x3A, 14, 0x10, 0x96, 0x01, 0x0A, 9] @ ascii_bytes ''bad token'')
   = Failure (Message (lit ''ad token''))"
  by code_simp

section \<open>Request headers\<close>

text \<open>
  C10: for the endpoint type \<open>auth\<close>, whatever the client's fields (an auth token set
  or not) and whether a correlation id was asked for, the headers carry
  \<open>Content-Type: application/x-protobuf\<close> and none of the keys \<open>x-auth-token\<close>,
  \<open>user-session-id\<close>, \<open>user-session-time-elapsed\<close>.
\<close>

theorem auth_headers_carry_no_credentials:
  "headers api dr ''auth'' include_correlation ''Content-Type''
     = Some (lit ''application/x-protobuf'')
   \<and> ''x-auth-token'' \<notin> dom (headers api dr ''auth'' include_correlation)
   \<and> ''user-session-id'' \<notin> dom (headers api dr ''auth'' include_correlation)
   \<and> ''user-session-time-elapsed'' \<notin> dom (headers api dr ''auth'' include_correlation)"
  by (simp add: headers_def base_headers_def dict_update_def dict_pop_def Let_def dom_def)

section \<open>Timing engine\<close>

text \<open>The duration slept does not depend on the session state at all.\<close>

lemma slept_independent_of_session:
  "slept (adaptive_delay cfg s1 dr delay_type factor)
     = slept (adaptive_delay cfg s2 dr delay_type factor)"
  by (simp add: adaptive_delay_def Let_def)

lemma logged_factor_eq:
  "logged_factor (adaptive_delay cfg s dr delay_type factor)
     = factor * (if error_count s > 0 then 1 + real_of_int (error_count s) * 0.2 else 1)
         * (if actions_count s > 50 then 1.3 else 1)"
  by (simp add: adaptive_delay_def Let_def)

lemma error_multiplier_mono:
  assumes "(e1::int) \<le> e2"
  shows "(if e1 > 0 then 1 + real_of_int e1 * 0.2 else 1)
           \<le> (if e2 > 0 then 1 + real_of_int e2 * 0.2 else (1::real))"
  using assms by auto

lemma fatigue_multiplier_mono:
  assumes "(a1::int) \<le> a2"
  shows "(if a1 > 50 then 1.3 else 1) \<le> (if a2 > 50 then 1.3 else (1::real))"
  using assms by auto

text \<open>
  C4: with the same delay class, configuration, factor and random draws, a session state
  with at least as many errors and at least as many actions sleeps at least as long; and
  the factor the function ends with (for a factor that is not negative) is at least as
  large.
\<close>

theorem adaptive_delay_monotone:
  assumes "error_count s1 \<le> error_count s2" and "actions_count s1 \<le> actions_count s2"
  shows "slept (adaptive_delay cfg s1 dr delay_type factor)
           \<le> slept (adaptive_delay cfg s2 dr delay_type factor)
         \<and> (0 \<le> factor \<longrightarrow>
              logged_factor (adaptive_delay cfg s1 dr delay_type factor)
                \<le> logged_factor (adaptive_delay cfg s2 dr delay_type factor))"
proof (intro conjI impI)
  show "slept (adaptive_delay cfg s1 dr delay_type factor)
          \<le> slept (adaptive_delay cfg s2 dr delay_type factor)"
    using slept_independent_of_session [of cfg s1 dr delay_type factor s2] by simp
next
  assume f: "0 \<le> factor"
  let ?e1 = "if error_count s1 > 0 then 1 + real_of_int (error_count s1) * 0.2 else (1::real)"
  let ?e2 = "if error_count s2 > 0 then 1 + real_of_int (error_count s2) * 0.2 else (1::real)"
  let ?a1 = "if actions_count s1 > 50 then 1.3 else (1::real)"
  let ?a2 = "if actions_count s2 > 50 then 1.3 else (1::real)"
  have e: "?e1 \<le> ?e2" by (rule error_multiplier_mono [OF assms(1)])
  have a: "?a1 \<le> ?a2" by (rule fatigue_multiplier_mono [OF assms(2)])
  have e1: "0 \<le> ?e1" and a1: "0 \<le> ?a1" and e2: "0 \<le> ?e2"
    by auto
  have "factor * ?e1 \<le> factor * ?e2"
    by (rule mult_left_mono [OF e f])
  then have "factor * ?e1 * ?a1 \<le> factor * ?e2 * ?a2"
    by (rule mult_mono [OF _ a _ a1]) (use f e2 in simp)
  then show "logged_factor (adaptive_delay cfg s1 dr delay_type factor)
               \<le> logged_factor (adaptive_delay cfg s2 dr delay_type factor)"
    by (simp only: logged_factor_eq)
qed

theorem adaptive_delay_monotone_witness:
  "error_count fresh_session \<le> error_count (fresh_session\<lparr>error_count := 3, actions_count := 60\<rparr>)
   \<and> actions_count fresh_session
       \<le> actions_count (fresh_session\<lparr>error_count := 3, actions_count := 60\<rparr>)
   \<and> slept (adaptive_delay default_config fresh_session half_draws ''short'' 1)
       \<le> slept (adaptive_delay default_config
                  (fresh_session\<lparr>error_count := 3, actions_count := 60\<rparr>) half_draws ''short'' 1)
   \<and> logged_factor (adaptive_delay default_config fresh_session half_draws ''short'' 1) = 1
   \<and> logged_factor (adaptive_delay default_config
                  (fresh_session\<lparr>error_count := 3, actions_count := 60\<rparr>) half_draws ''short'' 1)
       = 208 / 100"
proof -
  have h1: "error_count fresh_session
              \<le> error_count (fresh_session\<lparr>error_count := 3, actions_count := 60\<rparr>)"
    and h2: "actions_count fresh_session
              \<le> actions_count (fresh_session\<lparr>error_count := 3, actions_count := 60\<rparr>)"
    by (simp_all add: fresh_session_def)
  have l1: "logged_factor (adaptive_delay default_config fresh_session half_draws ''short'' 1) = 1"
    by (simp add: logged_factor_eq fresh_session_def)
  have l2: "logged_factor (adaptive_delay default_config
                  (fresh_session\<lparr>error_count := 3, actions_count := 60\<rparr>) half_draws ''short'' 1)
              = 208 / 100"
    by (simp add: logged_factor_eq fresh_session_def)
  from adaptive_delay_monotone [OF h1 h2, of default_config half_draws "''short''" 1] h1 h2 l1 l2
  show ?thesis by simp
qed

subsection \<open>The range of the delay\<close>

lemma uniform_between:
  assumes "a \<le> b" "0 \<le> r" "r \<le> 1"
  shows "a \<le> uniform a b r \<and> uniform a b r \<le> b"
proof -
  have "0 \<le> (b - a) * r" using assms by simp
  moreover have "(b - a) * r \<le> (b - a) * 1"
    using assms by (intro mult_left_mono) simp_all
  ultimately show ?thesis by (simp add: uniform_def)
qed

lemma spread_between:
  fixes f v r :: real
  assumes "0 \<le> f" "0 \<le> v" "0 \<le> r" "r \<le> 1"
  shows "f * (1 - v) \<le> f * (1 - v + r * v * 2) \<and> f * (1 - v + r * v * 2) \<le> f * (1 + v)"
proof -
  from assms(3,2) have "0 \<le> r * v" by (rule mult_nonneg_nonneg)
  moreover from assms(4,2) have "r * v \<le> 1 * v" by (rule mult_right_mono)
  ultimately have "1 - v \<le> 1 - v + r * v * 2" "1 - v + r * v * 2 \<le> 1 + v"
    by simp_all
  then show ?thesis using assms(1) by (simp add: mult_left_mono)
qed

lemma slept_unfolded:
  assumes "map_of BASE_DELAYS delay_type = Some (bmin, bmax)"
  shows "slept (adaptive_delay cfg s dr delay_type factor)
     = (let v = get_or (realistic_timing_variance cfg) 0.3;
            lo = max 0.05 (bmin * factor * (1 - v + draw_min dr * v * 2));
            hi = max (lo + 0.1) (bmax * factor * (1 - v + draw_max dr * v * 2))
        in uniform lo hi (draw_uniform dr))"
proof -
  from assms have "delay_type \<in> set (map fst BASE_DELAYS)"
    by (metis domI dom_map_of_conv_image_fst set_map)
  with assms show ?thesis
    by (simp add: adaptive_delay_def Let_def)
qed

lemma delay_bounds_core:
  fixes bmin bmax f v :: real
  assumes r1: "0 \<le> r1" "r1 \<le> 1" and r2: "0 \<le> r2" "r2 \<le> 1" and r3: "0 \<le> r3" "r3 \<le> 1"
    and f: "0 \<le> f" and v: "0 \<le> v" and b: "0 \<le> bmin" "0 \<le> bmax"
    and gap: "max 0.05 (bmin * (f * (1 + v))) + 0.1 \<le> bmax * (f * (1 + v))"
  defines "lo \<equiv> max 0.05 (bmin * f * (1 - v + r1 * v * 2))"
  defines "hi \<equiv> max (lo + 0.1) (bmax * f * (1 - v + r2 * v * 2))"
  shows "bmin * f * (1 - v) \<le> uniform lo hi r3" "uniform lo hi r3 \<le> bmax * f * (1 + v)"
    "0.05 \<le> uniform lo hi r3"
proof -
  have lohi: "lo \<le> hi" by (simp add: hi_def)
  from uniform_between [OF lohi r3] have u: "lo \<le> uniform lo hi r3" "uniform lo hi r3 \<le> hi"
    by simp_all
  from spread_between [OF f v r1] have s1: "f * (1 - v) \<le> f * (1 - v + r1 * v * 2)"
    "f * (1 - v + r1 * v * 2) \<le> f * (1 + v)" by simp_all
  from spread_between [OF f v r2] have s2: "f * (1 - v + r2 * v * 2) \<le> f * (1 + v)" by simp
  have "bmin * (f * (1 - v)) \<le> bmin * (f * (1 - v + r1 * v * 2))"
    by (rule mult_left_mono [OF s1(1) b(1)])
  then have "bmin * f * (1 - v) \<le> lo" by (simp add: lo_def mult.assoc)
  with u show "bmin * f * (1 - v) \<le> uniform lo hi r3" by linarith
  have "0.05 \<le> lo" by (simp add: lo_def)
  with u show "0.05 \<le> uniform lo hi r3" by linarith
  have "bmin * (f * (1 - v + r1 * v * 2)) \<le> bmin * (f * (1 + v))"
    by (rule mult_left_mono [OF s1(2) b(1)])
  then have "max 0.05 (bmin * (f * (1 - v + r1 * v * 2))) \<le> max 0.05 (bmin * (f * (1 + v)))"
    by (intro max.mono order_refl)
  then have "lo \<le> max 0.05 (bmin * (f * (1 + v)))" by (simp only: lo_def mult.assoc)
  with gap have a: "lo + 0.1 \<le> bmax * (f * (1 + v))" by linarith
  have bb: "bmax * (f * (1 - v + r2 * v * 2)) \<le> bmax * (f * (1 + v))"
    by (rule mult_left_mono [OF s2 b(2)])
  from a bb have "hi \<le> bmax * f * (1 + v)" by (simp add: hi_def mult.assoc)
  with u show "uniform lo hi r3 \<le> bmax * f * (1 + v)" by linarith
qed

lemma gap_classes:
  assumes "3/10 \<le> (x::real)"
  shows "\<forall>(name, bmin, bmax) \<in> set BASE_DELAYS.
           max 0.05 (bmin * x) + 0.1 \<le> bmax * x \<and> 0 \<le> bmin \<and> 0 \<le> bmax"
  using assms by (simp add: BASE_DELAYS_def max_def)

lemma gap_class:
  assumes "map_of BASE_DELAYS delay_type = Some (bmin, bmax)" "3/10 \<le> (x::real)"
  shows "max 0.05 (bmin * x) + 0.1 \<le> bmax * x" "0 \<le> bmin" "0 \<le> bmax"
proof -
  from assms(1) have "(delay_type, bmin, bmax) \<in> set BASE_DELAYS"
    by (rule map_of_SomeD)
  with gap_classes [OF assms(2)] show "max 0.05 (bmin * x) + 0.1 \<le> bmax * x" "0 \<le> bmin" "0 \<le> bmax"
    by blast+
qed


text \<open>
  C5, as the code has it: for every configured delay class, every factor \<open>f \<ge> 0\<close> and
  variance \<open>v \<ge> 0\<close> with \<open>f * (1 + v) \<ge> 0.3\<close> (so every factor from 1 on, whatever the
  variance), and draws in \<open>[0, 1]\<close>, the duration slept lies between
  \<open>configuredMin * f * (1 - v)\<close> and \<open>configuredMax * f * (1 + v)\<close>, and is at least
  the floor 0.05.
\<close>

theorem adaptive_delay_bounds:
  assumes cls: "map_of BASE_DELAYS delay_type = Some (configured_min, configured_max)"
    and v: "v = get_or (realistic_timing_variance cfg) 0.3" "0 \<le> v"
    and f: "0 \<le> factor" "3/10 \<le> factor * (1 + v)"
    and r1: "0 \<le> draw_min dr" "draw_min dr \<le> 1"
    and r2: "0 \<le> draw_max dr" "draw_max dr \<le> 1"
    and r3: "0 \<le> draw_uniform dr" "draw_uniform dr \<le> 1"
  shows "configured_min * factor * (1 - v) \<le> slept (adaptive_delay cfg session dr delay_type factor)
         \<and> slept (adaptive_delay cfg session dr delay_type factor)
             \<le> configured_max * factor * (1 + v)
         \<and> 0.05 \<le> slept (adaptive_delay cfg session dr delay_type factor)"
proof -
  note g = gap_class [OF cls f(2)]
  note c = delay_bounds_core [OF r1 r2 r3 f(1) v(2) g(2) g(3) g(1)]
  show ?thesis
    unfolding slept_unfolded [OF cls] Let_def v(1) [symmetric]
    using c by simp
qed

theorem adaptive_delay_bounds_witness:
  "map_of BASE_DELAYS ''micro'' = Some (1/10, 1/2)
   \<and> (3/10 :: real) = get_or (realistic_timing_variance default_config) 0.3
   \<and> slept (adaptive_delay default_config fresh_session half_draws ''micro'' 1) = 3/10
   \<and> (1/10) * 1 * (1 - 3/10) \<le> slept (adaptive_delay default_config fresh_session half_draws ''micro'' 1)
   \<and> slept (adaptive_delay default_config fresh_session half_draws ''micro'' 1)
       \<le> (1/2) * 1 * (1 + 3/10)
   \<and> 0.05 \<le> slept (adaptive_delay default_config fresh_session half_draws ''micro'' 1)"
proof -
  have cls: "map_of BASE_DELAYS ''micro'' = Some (1/10, 1/2)"
    by (simp add: BASE_DELAYS_def)
  have v: "(3/10 :: real) = get_or (realistic_timing_variance default_config) 0.3"
    by (simp add: default_config_def get_or_def)
  have val: "slept (adaptive_delay default_config fresh_session half_draws ''micro'' 1) = 3/10"
    by (simp add: slept_unfolded [OF cls] Let_def default_config_def get_or_def uniform_def
        half_draws_def)
  have "(1/10) * 1 * (1 - 3/10) \<le> slept (adaptive_delay default_config fresh_session half_draws ''micro'' 1)
        \<and> slept (adaptive_delay default_config fresh_session half_draws ''micro'' 1)
            \<le> (1/2) * 1 * (1 + 3/10)
        \<and> 0.05 \<le> slept (adaptive_delay default_config fresh_session half_draws ''micro'' 1)"
    by (rule adaptive_delay_bounds [OF cls v]) (simp_all add: half_draws_def)
  with cls v val show ?thesis by simp
qed

text \<open>
  C5 as stated fails for a small factor: with the class \<open>micro\<close> (0.1 to 0.5), the
  factor 0.1 and the variance 0.3, the floor 0.05 and the least spread 0.1 above it give a
  sleep of 0.1, above \<open>0.5 * 0.1 * 1.3 = 0.065\<close>.
\<close>

theorem adaptive_delay_small_factor_above_range:
  "map_of BASE_DELAYS ''micro'' = Some (1/10, 1/2)
   \<and> get_or (realistic_timing_variance default_config) 0.3 = (3/10 :: real)
   \<and> slept (adaptive_delay default_config fresh_session low_draws ''micro'' (1/10)) = 1/10
   \<and> \<not> slept (adaptive_delay default_config fresh_session low_draws ''micro'' (1/10))
         \<le> (1/2) * (1/10) * (1 + 3/10)"
proof -
  have cls: "map_of BASE_DELAYS ''micro'' = Some (1/10, 1/2)"
    by (simp add: BASE_DELAYS_def)
  have val: "slept (adaptive_delay default_config fresh_session low_draws ''micro'' (1/10)) = 1/10"
    by (simp add: slept_unfolded [OF cls] Let_def default_config_def get_or_def uniform_def
        low_draws_def)
  show ?thesis
    using cls val by (simp add: default_config_def get_or_def)
qed

section \<open>Ban classifier\<close>

lemma lower_from_append:
  "lower_from U s i (a @ b) = lower_from U s i a @ lower_from U s (i + length a) b"
  by (induction a arbitrary: i) auto

lemma lower_from_plain: "plain p \<Longrightarrow> lower_from U s i p = p"
  by (induction p arbitrary: i) (auto simp: plain_def)

text \<open>Lowering keeps every occurrence of a piece without capitals and non-ASCII.\<close>

lemma sublist_lower:
  assumes "plain p" and "sublist p s"
  shows "sublist p (lower U s)"
proof -
  from assms(2) obtain a b where s: "s = a @ p @ b"
    by (auto simp: sublist_def)
  have "lower U s = lower_from U s 0 a @ p @ lower_from U s (length a + length p) b"
    unfolding lower_def
    by (subst (2) s) (simp add: lower_from_append lower_from_plain [OF assms(1)])
  then show ?thesis
    by (auto simp: sublist_def)
qed

lemma plain_account_disabled: "plain (lit ''account_disabled'')"
  by (simp add: plain_def lit_def)

lemma lower_account_disabled: "lower U (lit ''account_disabled'') = lit ''account_disabled''"
  by (simp add: lower_def lower_from_plain [OF plain_account_disabled])

lemma indicator_severity_pos: "0 < indicator_severity i"
  by (simp add: indicator_severity_def)

lemma fold_score_mono:
  "acc \<le> fold (\<lambda>indicator ban_score.
      if P indicator then ban_score + indicator_severity indicator else ban_score) xs acc"
proof (induction xs arbitrary: acc)
  case Nil
  show ?case by simp
next
  case (Cons a xs)
  have "acc \<le> (if P a then acc + indicator_severity a else acc)"
    using indicator_severity_pos [of a] by simp
  also have "\<dots> \<le> fold (\<lambda>indicator ban_score.
      if P indicator then ban_score + indicator_severity indicator else ban_score) xs
        (if P a then acc + indicator_severity a else acc)"
    by (rule Cons.IH)
  finally show ?case by simp
qed

lemma account_disabled_score:
  assumes "sublist (lit ''account_disabled'') (str_of response)"
  shows "1 \<le> check_ban_indicators U response"
proof -
  let ?rs = "lower U (str_of response)"
  let ?f = "\<lambda>indicator ban_score.
      if sublist (lower U indicator) ?rs then ban_score + indicator_severity indicator
      else ban_score"
  let ?before = "[lit ''rate_limited_until'', lit ''APPEAL_BAN'']"
  let ?after = "[lit ''temporarily_unavailable'', lit ''too_many_requests'']"
  have hit: "sublist (lower U (lit ''account_disabled'')) ?rs"
    using sublist_lower [OF plain_account_disabled assms] by (simp add: lower_account_disabled)
  have split: "BAN_INDICATORS = ?before @ lit ''account_disabled'' # ?after"
    by (simp add: BAN_INDICATORS_def)
  have "0 \<le> fold ?f ?before 0"
    by (rule fold_score_mono)
  then have "1 \<le> ?f (lit ''account_disabled'') (fold ?f ?before 0)"
    using hit by (simp add: indicator_severity_def)
  also have "\<dots> \<le> fold ?f ?after (?f (lit ''account_disabled'') (fold ?f ?before 0))"
    by (rule fold_score_mono)
  also have "\<dots> = fold ?f BAN_INDICATORS 0"
    by (subst split) (simp only: fold_append fold_simps comp_def)
  finally have base: "1 \<le> fold ?f BAN_INDICATORS 0" .
  define rate :: real where
    "rate = (if sublist (lit ''rate_limited_until'') ?rs \<or> sublist (lit ''too_many_requests'') ?rs
             then 0.5 else 0)"
  define empty :: real where "empty = (if response = EmptyDict then 0.2 else 0)"
  have "check_ban_indicators U response = fold ?f BAN_INDICATORS 0 + rate + empty"
    unfolding check_ban_indicators_def Let_def rate_def empty_def by simp
  moreover have "0 \<le> rate" "0 \<le> empty"
    by (simp_all add: rate_def empty_def)
  ultimately show ?thesis
    using base by linarith
qed

lemma empty_body_score: "check_ban_indicators U EmptyDict = 2/10"
  by code_simp

text \<open>
  C6: with the threshold at its default 0.8 (the configuration never sets another), a
  response whose string form contains \<open>account_disabled\<close> scores at least the threshold,
  and the empty response scores 0.2, strictly below it.
\<close>

theorem ban_score_thresholds:
  assumes "ban_detection_sensitivity cfg = None"
  shows "(sublist (lit ''account_disabled'') (str_of response)
            \<longrightarrow> sensitivity cfg \<le> check_ban_indicators U response)
         \<and> check_ban_indicators U EmptyDict = 2/10
         \<and> check_ban_indicators U EmptyDict < sensitivity cfg"
proof -
  have t: "sensitivity cfg = 8/10"
    using assms by (simp add: sensitivity_def get_or_def)
  show ?thesis
    using account_disabled_score [of response U] by (auto simp: t empty_body_score)
qed

theorem ban_score_thresholds_witness:
  "ban_detection_sensitivity default_config = None
   \<and> sublist (lit ''account_disabled'') (str_of disabled_response)
   \<and> sensitivity default_config \<le> check_ban_indicators no_unicode disabled_response
   \<and> check_ban_indicators no_unicode EmptyDict = 2/10
   \<and> check_ban_indicators no_unicode EmptyDict < sensitivity default_config"
proof -
  have c: "ban_detection_sensitivity default_config = None"
    by (simp add: default_config_def)
  have s: "sublist (lit ''account_disabled'') (str_of disabled_response)"
    by code_simp
  from ban_score_thresholds [OF c, of disabled_response no_unicode] c s show ?thesis
    by simp
qed

section \<open>Request-pattern executor\<close>

lemma py_range_upt: "py_range n = map int [0..<nat n]"
proof (cases "n \<le> 0")
  case True
  then show ?thesis by (simp add: py_range_def)
next
  case False
  then obtain m where n: "n = int m" by (metis nat_0_le linear)
  have "[0..int m - 1] = map int [0..<m]"
  proof (induction m)
    case 0
    show ?case by simp
  next
    case (Suc m)
    have "[0..int (Suc m) - 1] = [0..int m - 1] @ [int m]"
      by (simp add: upto_rec2)
    with Suc show ?case by simp
  qed
  with n show ?thesis by (simp add: py_range_def)
qed

lemma issue_request_fields:
  "trace (issue_request env p (int i) st) = trace st @ expected_call env p (calls st) i"
  "calls (issue_request env p r st) = calls st + 1"
  "polls (issue_request env p r st) = polls st"
  "requests_made (issue_request env p r st) = requests_made st + 1"
  by (simp_all add: issue_request_def expected_call_def Let_def)

lemma repeat_loop_running:
  assumes "\<forall>k. running_at env k"
  shows "trace (repeat_loop env p (map (\<lambda>d. int (i + d)) [0..<m]) st)
           = trace st @ concat (map (\<lambda>d. expected_call env p (calls st + d) (i + d)) [0..<m])
         \<and> calls (repeat_loop env p (map (\<lambda>d. int (i + d)) [0..<m]) st) = calls st + m
         \<and> requests_made (repeat_loop env p (map (\<lambda>d. int (i + d)) [0..<m]) st)
             = requests_made st + int m"
proof (induction m arbitrary: i st)
  case 0
  show ?case by simp
next
  case (Suc m)
  let ?st = "issue_request env p (int i) (st\<lparr>polls := polls st + 1\<rparr>)"
  have l: "[0..<Suc m] = 0 # map Suc [0..<m]"
    by (simp add: upt_conv_Cons map_Suc_upt del: upt_Suc)
  have step: "repeat_loop env p (map (\<lambda>d. int (i + d)) [0..<Suc m]) st
                = repeat_loop env p (map (\<lambda>d. int (Suc i + d)) [0..<m]) ?st"
    using assms by (simp add: l comp_def ac_simps del: upt_Suc)
  have ex: "concat (map (\<lambda>d. expected_call env p (calls st + d) (i + d)) [0..<Suc m])
              = expected_call env p (calls st) i
                @ concat (map (\<lambda>d. expected_call env p (calls ?st + d) (Suc i + d)) [0..<m])"
    by (simp add: l comp_def issue_request_fields ac_simps del: upt_Suc)
  from Suc.IH [of "Suc i" ?st] show ?case
    unfolding step ex by (simp add: issue_request_fields)
qed

lemma repeat_loop_expected:
  assumes "\<forall>k. running_at env k"
  shows "trace (repeat_loop env p (py_range (repeat_count p)) st)
           = trace st @ expected_repeats env p (calls st)"
    and "calls (repeat_loop env p (py_range (repeat_count p)) st) = calls st + nat (repeat_count p)"
    and "requests_made (repeat_loop env p (py_range (repeat_count p)) st)
           = requests_made st + int (nat (repeat_count p))"
  using repeat_loop_running [OF assms, of p 0 "nat (repeat_count p)" st]
  by (simp_all add: py_range_upt expected_repeats_def)

lemma count_requests_call: "length (filter is_request (expected_call env p a i)) = 1"
  by (simp add: expected_call_def)

lemma count_delays_call:
  "length (filter is_repeat_delay (expected_call env p a i))
     = (if int i < repeat_count p - 1 then 1 else 0)"
  by (simp add: expected_call_def)

lemma length_filter_concat:
  "length (filter P (concat xss)) = sum_list (map (\<lambda>xs. length (filter P xs)) xss)"
  by (induction xss) auto

lemma count_requests: "length (filter is_request (expected_repeats env p c)) = nat (repeat_count p)"
  by (simp add: expected_repeats_def length_filter_concat comp_def count_requests_call
      sum_list_triv)

lemma count_below: "sum_list (map (\<lambda>i. if i < k then 1 else 0) [0..<n]) = min k n"
  by (induction n) auto

lemma count_delays:
  "length (filter is_repeat_delay (expected_repeats env p c)) = nat (repeat_count p - 1)"
proof -
  have "(\<lambda>i. if int i < repeat_count p - 1 then 1 else 0)
          = (\<lambda>i. if i < nat (repeat_count p - 1) then 1 else (0::nat))"
    by (rule ext) auto
  then show ?thesis
    by (simp add: expected_repeats_def length_filter_concat comp_def count_delays_call
        count_below)
qed

lemma run_pattern_expected:
  assumes "\<forall>k. running_at env k"
  shows "trace (run_pattern env last_pattern p st)
           = trace st @ expected_repeats env p (calls st)
             @ (if p \<noteq> last_pattern then [Delay (if critical p then ''short'' else ''micro'') (After (endpoint p))] else [])"
    and "calls (run_pattern env last_pattern p st) = calls st + nat (repeat_count p)"
    and "requests_made (run_pattern env last_pattern p st) = requests_made st + int (nat (repeat_count p))"
  using repeat_loop_expected [OF assms, of p st]
  by (auto simp: run_pattern_def Let_def)

lemma pattern_loop_expected:
  assumes "\<forall>k. running_at env k"
  shows "trace (pattern_loop env last_pattern ps st) = trace st @ expected_patterns env last_pattern ps (calls st)
         \<and> requests_made (pattern_loop env last_pattern ps st) = requests_made st + int (total_calls ps)"
proof (induction ps arbitrary: st)
  case Nil
  show ?case by (simp add: total_calls_def)
next
  case (Cons p ps)
  let ?st = "run_pattern env last_pattern p (st\<lparr>polls := polls st + 1\<rparr>)"
  have step: "pattern_loop env last_pattern (p # ps) st = pattern_loop env last_pattern ps ?st"
    using assms by simp
  from Cons.IH [of ?st] run_pattern_expected [OF assms, of last_pattern p "st\<lparr>polls := polls st + 1\<rparr>"]
  show ?case
    unfolding step by (simp add: total_calls_def)
qed


lemma expected_patterns_counts:
  "length (filter is_request (expected_patterns env last_pattern ps c)) = total_calls ps
   \<and> length (filter is_repeat_delay (expected_patterns env last_pattern ps c))
       = total_repeat_delays ps"
  by (induction ps arbitrary: c)
     (simp_all add: total_calls_def total_repeat_delays_def count_requests count_delays)

lemma initial_results_fields:
  "trace initial_results = []" "calls initial_results = 0" "requests_made initial_results = 0"
  by (simp_all add: initial_results_def)

text \<open>
  C3: when the stop flag stays unset, whatever the calls report: for a named pattern,
  \<open>execute_request_pattern\<close> returns results whose events are those expected of every
  step in turn, none left out after a failure: per step of repeat count \<open>N\<close>, \<open>N\<close> calls of
  the wire client (none for \<open>N \<le> 0\<close>) with \<open>N - 1\<close> delays of class \<open>micro\<close> between them,
  a failed call of a critical step followed by its warning; the requests issued are the
  sum of the repeat counts. The same holds for the loop over the repeats of one step and
  for the loop over the steps, run from any state.
\<close>

theorem pattern_executor_calls_and_delays:
  assumes "\<forall>k. running_at env k"
  shows "(map_of REQUEST_PATTERNS pattern_name = Some patterns \<longrightarrow>
            (\<exists>results.
               execute_request_pattern env session pattern_name
                 = Some (results,
                         session\<lparr>request_count := request_count session + requests_made results,
                                 error_count := error_count session + errors results\<rparr>)
               \<and> trace results = expected_patterns env (last patterns) patterns 0
               \<and> length (filter is_request (trace results)) = total_calls patterns
               \<and> length (filter is_repeat_delay (trace results)) = total_repeat_delays patterns
               \<and> requests_made results = int (total_calls patterns)))
         \<and> trace (repeat_loop env p (py_range (repeat_count p)) st)
             = trace st @ expected_repeats env p (calls st)
         \<and> length (filter is_request (expected_repeats env p (calls st))) = nat (repeat_count p)
         \<and> length (filter is_repeat_delay (expected_repeats env p (calls st)))
             = nat (repeat_count p - 1)
         \<and> trace (pattern_loop env last_pattern ps st)
             = trace st @ expected_patterns env last_pattern ps (calls st)
         \<and> requests_made (pattern_loop env last_pattern ps st)
             = requests_made st + int (total_calls ps)"
proof -
  have named: "\<exists>results.
      execute_request_pattern env session pattern_name
        = Some (results,
                session\<lparr>request_count := request_count session + requests_made results,
                        error_count := error_count session + errors results\<rparr>)
      \<and> trace results = expected_patterns env (last patterns) patterns 0
      \<and> length (filter is_request (trace results)) = total_calls patterns
      \<and> length (filter is_repeat_delay (trace results)) = total_repeat_delays patterns
      \<and> requests_made results = int (total_calls patterns)"
    if "map_of REQUEST_PATTERNS pattern_name = Some patterns"
  proof -
    define results where "results = pattern_loop env (last patterns) patterns initial_results"
    have run: "execute_request_pattern env session pattern_name
        = Some (results,
                session\<lparr>request_count := request_count session + requests_made results,
                        error_count := error_count session + errors results\<rparr>)"
      using that by (simp add: execute_request_pattern_def Let_def results_def)
    from pattern_loop_expected [OF assms, of "last patterns" patterns initial_results]
    have t: "trace results = expected_patterns env (last patterns) patterns 0"
      and r: "requests_made results = int (total_calls patterns)"
      by (simp_all add: results_def initial_results_fields)
    from run t r expected_patterns_counts [of env "last patterns" patterns 0] show ?thesis
      by (intro exI [of _ results]) simp
  qed
  from named repeat_loop_expected(1) [OF assms, of p st]
    pattern_loop_expected [OF assms, of last_pattern ps st]
  show ?thesis
    by (simp add: count_requests count_delays)
qed

text \<open>
  The pattern \<open>liked_me_processing\<close> with every request failing: the first step, of repeat
  count 3, makes three calls, each followed by the warning, with two delays between
  them; the run goes through all four steps and issues six requests.
\<close>

theorem pattern_executor_calls_and_delays_witness:
  "(\<forall>k. running_at all_failing k)
   \<and> map_of REQUEST_PATTERNS ''liked_me_processing'' = Some liked_me_patterns
   \<and> map_option (\<lambda>r. (trace (fst r), requests_made (fst r), errors (fst r),
                        request_count (snd r), error_count (snd r)))
         (execute_request_pattern all_failing fresh_session ''liked_me_processing'')
       = Some ([Request ''fast_match_count'' ''GET'', LogWarning ''fast_match_count'',
                Delay ''micro'' (RepeatOf ''fast_match_count'' 1),
                Request ''fast_match_count'' ''GET'', LogWarning ''fast_match_count'',
                Delay ''micro'' (RepeatOf ''fast_match_count'' 2),
                Request ''fast_match_count'' ''GET'', LogWarning ''fast_match_count'',
                Delay ''short'' (After ''fast_match_count''),
                Request ''fast_match_newcount'' ''GET'', LogWarning ''fast_match_newcount'',
                Delay ''short'' (After ''fast_match_newcount''),
                Request ''liked_me_batch'' ''GET'', LogWarning ''liked_me_batch'',
                Delay ''short'' (After ''liked_me_batch''),
                Request ''fast_match_teaser'' ''GET'', LogWarning ''fast_match_teaser''],
               6, 6, 6, 6)
   \<and> total_calls liked_me_patterns = 6 \<and> total_repeat_delays liked_me_patterns = 2"
proof -
  have r: "\<forall>k. running_at all_failing k"
    by (simp add: all_failing_def)
  have n: "map_of REQUEST_PATTERNS ''liked_me_processing'' = Some liked_me_patterns"
    by code_simp
  have v: "map_option (\<lambda>r. (trace (fst r), requests_made (fst r), errors (fst r),
                        request_count (snd r), error_count (snd r)))
         (execute_request_pattern all_failing fresh_session ''liked_me_processing'')
       = Some ([Request ''fast_match_count'' ''GET'', LogWarning ''fast_match_count'',
                Delay ''micro'' (RepeatOf ''fast_match_count'' 1),
                Request ''fast_match_count'' ''GET'', LogWarning ''fast_match_count'',
                Delay ''micro'' (RepeatOf ''fast_match_count'' 2),
                Request ''fast_match_count'' ''GET'', LogWarning ''fast_match_count'',
                Delay ''short'' (After ''fast_match_count''),
                Request ''fast_match_newcount'' ''GET'', LogWarning ''fast_match_newcount'',
                Delay ''short'' (After ''fast_match_newcount''),
                Request ''liked_me_batch'' ''GET'', LogWarning ''liked_me_batch'',
                Delay ''short'' (After ''liked_me_batch''),
                Request ''fast_match_teaser'' ''GET'', LogWarning ''fast_match_teaser''],
               6, 6, 6, 6)"
    by code_simp
  from pattern_executor_calls_and_delays [OF r, of "''liked_me_processing''" liked_me_patterns
      fresh_session triple_check initial_results "last liked_me_patterns" liked_me_patterns]
    n
  obtain results where
    e: "execute_request_pattern all_failing fresh_session ''liked_me_processing''
          = Some (results,
                  fresh_session\<lparr>request_count := request_count fresh_session + requests_made results,
                                error_count := error_count fresh_session + errors results\<rparr>)"
    and c: "length (filter is_request (trace results)) = total_calls liked_me_patterns"
      "length (filter is_repeat_delay (trace results)) = total_repeat_delays liked_me_patterns"
    by blast
  from v e have "trace results
       = [Request ''fast_match_count'' ''GET'', LogWarning ''fast_match_count'',
                Delay ''micro'' (RepeatOf ''fast_match_count'' 1),
                Request ''fast_match_count'' ''GET'', LogWarning ''fast_match_count'',
                Delay ''micro'' (RepeatOf ''fast_match_count'' 2),
                Request ''fast_match_count'' ''GET'', LogWarning ''fast_match_count'',
                Delay ''short'' (After ''fast_match_count''),
                Request ''fast_match_newcount'' ''GET'', LogWarning ''fast_match_newcount'',
                Delay ''short'' (After ''fast_match_newcount''),
                Request ''liked_me_batch'' ''GET'', LogWarning ''liked_me_batch'',
                Delay ''short'' (After ''liked_me_batch''),
                Request ''fast_match_teaser'' ''GET'', LogWarning ''fast_match_teaser'']"
    by simp
  with c have "total_calls liked_me_patterns = 6" "total_repeat_delays liked_me_patterns = 2"
    by simp_all
  with r n v show ?thesis
    by simp
qed

section \<open>Queue batch processor\<close>

lemma new_users_of_all_seen:
  "list_all (\<lambda>u. truthy (uid u) \<longrightarrow> the (uid u) \<in> seen) page \<Longrightarrow>
   new_users_of page seen = (if list_ex user_null page then None else Some ([], seen))"
  by (induction page) auto












text \<open>
  C9: when the loop may go on and the page it fetches holds no entry with an id not seen
  before in this run, this iteration is the last: the loop is left after the one fetch,
  for every count \<open>total_available\<close> reported at the start and however many entries were
  processed so far. It is left by \<open>break\<close>, or, when an entry of the page has \<open>None\<close> for
  its \<open>"user"\<close>, by the exception the filter raises there; the state is the same.
\<close>

theorem all_seen_page_ends_loop:
  assumes "may_continue env (checks st)"
    and "page_result env (fetches st) = Some page"
    and "list_all (\<lambda>u. truthy (uid u) \<longrightarrow> ident u \<in> processed_user_ids st) page"
  shows "page_loop (Suc fuel) env cfg st
           = Some ((if list_ex user_null page then LoopRaised else LoopLeft)
                     (st\<lparr>checks := checks st + 1, fetches := fetches st + 1,
                         api_calls_made := api_calls_made st + 1,
                         history := history st @ [PageFetch, PageSleep]\<rparr>))"
proof -
  from assms(3) have "new_users_of page (processed_user_ids st)
      = (if list_ex user_null page then None else Some ([], processed_user_ids st))"
    by (intro new_users_of_all_seen) (simp add: ident_def)
  with assms(1,2) show ?thesis
    by (cases page) (simp_all add: Let_def)
qed

text \<open>Two of 25 users processed, and the remote sends the same two again.\<close>

theorem all_seen_page_ends_loop_witness:
  "may_continue same_page_again (checks two_seen)
   \<and> page_result same_page_again (fetches two_seen) = Some [sample_user 0, sample_user 1]
   \<and> total_available two_seen - users_processed two_seen = 23
   \<and> page_loop 6 same_page_again default_config two_seen
       = Some (LoopLeft (two_seen\<lparr>checks := 4, fetches := 2, api_calls_made := 5,
                           history := [PageFetch, PageSleep]\<rparr>))"
proof -
  have a: "may_continue same_page_again (checks two_seen)"
    by (simp add: same_page_again_def queue_of_25_def)
  have b: "page_result same_page_again (fetches two_seen) = Some [sample_user 0, sample_user 1]"
    by (simp add: same_page_again_def)
  have c: "list_all (\<lambda>u. truthy (uid u) \<longrightarrow> ident u \<in> processed_user_ids two_seen)
             [sample_user 0, sample_user 1]"
    by (simp add: two_seen_def sample_user_def ident_def)
  have d: "total_available two_seen - users_processed two_seen = 23"
    by (simp add: two_seen_def)
  from all_seen_page_ends_loop [OF a b c, of 5 default_config] a b d show ?thesis
    by (simp add: two_seen_def initial_stats_def sample_user_def)
qed

text \<open>
  An entry whose \<open>"user"\<close> is \<open>None\<close> makes the filter of its page raise: the function's
  handler returns the stats after the fetch, and the cached count is not written.
\<close>

lemma null_user_leaves_without_cache_write:
  "map_option (\<lambda>st. (users_processed st, api_calls_made st, history st))
     (process_all_liked_me_enhanced 10 null_user_page ten_likes 0)
   = Some (0, 2, [CountFetch, PageFetch, PageSleep])"
  by code_simp






text \<open>
  The condition on \<open>process_all_liked_me\<close> is needed: switched off, the run ends with the
  first page. With the 25 users in pages of 7 and 18 it sends 7 likes and writes 18.
\<close>

lemma first_page_only_when_switched_off:
  "map_option
     (\<lambda>st. (users_processed st, likes_sent st, length (like_calls (history st)),
            last (history st)))
     (process_all_liked_me_enhanced 10 queue_in_two_pages first_page_only 0)
   = Some (7, 7, 7, CacheWrite 18)"
  by code_simp

section \<open>Session orchestrator\<close>

lemma row_id_close_row [simp]: "row_id (close_row sid e d s st q r) = row_id r"
  by (simp add: close_row_def)

lemma end_sessions_none:
  "start_time (current w) = None \<Longrightarrow> sessions (end_enhanced_session env cfg sid st w) = sessions w"
  by (simp add: end_enhanced_session_def Let_def tick_def)

lemma end_sessions_refused:
  "\<not> db_update_ok env (end_calls w) \<Longrightarrow> sessions (end_enhanced_session env cfg sid st w) = sessions w"
  by (cases "start_time (current w)") (simp_all add: end_enhanced_session_def Let_def tick_def)

lemma end_sessions_written:
  "start_time (current w) = Some t0 \<Longrightarrow> db_update_ok env (end_calls w) \<Longrightarrow>
   \<exists>e d s q. sessions (end_enhanced_session env cfg sid st w)
          = map (close_row sid e d s st q) (sessions w)"
  by (simp add: end_enhanced_session_def Let_def tick_def) blast

lemma end_start_time:
  "start_time (current (end_enhanced_session env cfg sid st w)) = start_time (current w)"
  by (cases "start_time (current w)") (simp_all add: end_enhanced_session_def Let_def tick_def)

lemma end_end_calls:
  "end_calls (end_enhanced_session env cfg sid st w) = Suc (end_calls w)"
  by (cases "start_time (current w)") (simp_all add: end_enhanced_session_def Let_def tick_def)


lemma end_ids:
  "map row_id (sessions (end_enhanced_session env cfg sid st w)) = map row_id (sessions w)"
proof (cases "start_time (current w)")
  case None
  then show ?thesis by (simp add: end_sessions_none)
next
  case (Some t0)
  show ?thesis
  proof (cases "db_update_ok env (end_calls w)")
    case True
    from end_sessions_written [OF Some True, of cfg sid st] show ?thesis
      by (auto simp: comp_def)
  next
    case False
    then show ?thesis by (simp add: end_sessions_refused)
  qed
qed

lemma ended_close_row: "ended r \<Longrightarrow> ended (close_row sid e d s st q r)"
  by (simp add: close_row_def ended_def)

lemma ended_close_row_same: "row_id r = sid \<Longrightarrow> ended (close_row sid e d s st q r)"
  by (simp add: close_row_def ended_def)

lemma rows_of_map_close:
  "filter (\<lambda>r. row_id r = sid) (map (close_row sid' e d s st q) rows)
     = map (close_row sid' e d s st q) (filter (\<lambda>r. row_id r = sid) rows)"
  by (induction rows) simp_all

lemma end_sets_end:
  assumes "start_time (current w) \<noteq> None" and "db_update_ok env (end_calls w)"
  shows "list_all ended (rows_of sid (end_enhanced_session env cfg sid st w))"
proof -
  from assms(1) obtain t0 where t0: "start_time (current w) = Some t0" by auto
  from end_sessions_written [OF t0 assms(2), of cfg sid st]
  obtain e d s q where "sessions (end_enhanced_session env cfg sid st w)
      = map (close_row sid e d s st q) (sessions w)" by blast
  then show ?thesis
    by (simp add: rows_of_def rows_of_map_close list_all_iff ended_close_row_same)
qed

lemma footprint_end [simp]: "footprint (end_enhanced_session env cfg sid st w) = footprint w"
  by (simp add: footprint_def end_ids end_start_time)

lemma footprint_prims [simp]:
  "footprint (transition_session_phase p w) = footprint w"
  "footprint (mark_account_banned w) = footprint w"
  "footprint (update_cached_liked_count n w) = footprint w"
  "footprint (update_liked_me_check n w) = footprint w"
  "footprint (phase_completed name w) = footprint w"
  "footprint (startup_counted a b w) = footprint w"
  "footprint (merge_like_stats ls w) = footprint w"
  "footprint (tick w) = footprint w"
  by (simp_all add: footprint_def transition_session_phase_def mark_account_banned_def
      update_cached_liked_count_def update_liked_me_check_def phase_completed_def
      startup_counted_def merge_like_stats_def tick_def)


lemma summary_footprint [simp]: "footprint (snd (summary_phase env acct w)) = footprint w"
  by (simp add: summary_phase_def split: outcome.splits)

lemma liking_footprint [simp]: "footprint (snd (liking_phase env cfg acct c w)) = footprint w"
proof (cases c)
  case None
  then show ?thesis by (simp add: liking_phase_def)
next
  case (Some n)
  then show ?thesis
    by (cases "liking env") (simp_all add: liking_phase_def Let_def)
qed

lemma update_footprint [simp]: "footprint (snd (update_phase env cfg acct c w)) = footprint w"
  by (cases "profile_update env") (simp_all add: update_phase_def Let_def)


lemma no_likes_footprint [simp]:
  "footprint (snd (no_likes_branch env cfg acct sid w)) = footprint w"
proof (cases "should_check env")
  case (Raises e)
  then show ?thesis by (simp add: no_likes_branch_def)
next
  case (Returns b)
  show ?thesis
  proof (cases b)
    case True
    show ?thesis
    proof (cases "second_count env")
      case (Raises e)
      with Returns True show ?thesis by (simp add: no_likes_branch_def)
    next
      case r: (Returns c)
      with Returns True show ?thesis
        by (cases c) (simp_all add: no_likes_branch_def)
    qed
  next
    case False
    with Returns show ?thesis
      by (cases "profile_update env") (simp_all add: no_likes_branch_def Let_def)
  qed
qed


text \<open>The part of the block after the startup pattern went well.\<close>

lemma after_count_footprint:
  "footprint (snd (if c \<noteq> None \<and> c \<noteq> Some (acc_liked_me_count acct) then
                     (if c = Some 0
                      then no_likes_branch env cfg acct sid (update_cached_liked_count (the c) w)
                      else update_phase env cfg acct c (update_cached_liked_count (the c) w))
                   else if acc_liked_me_count acct = 0
                   then no_likes_branch env cfg acct sid w
                   else update_phase env cfg acct (Some (acc_liked_me_count acct)) w))
     = footprint w"
  by simp

lemma body_footprint [simp]: "footprint (snd (session_body env cfg acct sid w)) = footprint w"
proof (cases "startup env")
  case (Raises e)
  then show ?thesis by (simp add: session_body_def Let_def)
next
  case (Returns r)
  obtain ok made errs where r: "r = (ok, made, errs)" by (cases r) auto
  show ?thesis
  proof (cases "\<not> ok \<or> errs > 2")
    case True
    with Returns r show ?thesis by (simp add: session_body_def Let_def)
  next
    case False
    show ?thesis
    proof (cases "profile_data env")
      case (Raises e)
      with Returns r False show ?thesis by (simp add: session_body_def Let_def)
    next
      case p: (Returns b)
      show ?thesis
      proof (cases "b \<and> gold env")
        case no: False
        with Returns r False p show ?thesis
          by (cases b) (simp_all add: session_body_def Let_def)
      next
        case yes: True
        show ?thesis
        proof (cases "first_count env")
          case (Raises e)
          with Returns r False p yes show ?thesis by (simp add: session_body_def Let_def)
        next
          case c: (Returns c)
          have "session_body env cfg acct sid w
             = (if c \<noteq> None \<and> c \<noteq> Some (acc_liked_me_count acct) then
                     (if c = Some 0
                      then no_likes_branch env cfg acct sid (update_cached_liked_count (the c)
                        (phase_completed ''startup'' (startup_counted made errs (transition_session_phase STARTUP w))))
                      else update_phase env cfg acct c (update_cached_liked_count (the c)
                        (phase_completed ''startup'' (startup_counted made errs (transition_session_phase STARTUP w)))))
                   else if acc_liked_me_count acct = 0
                   then no_likes_branch env cfg acct sid
                        (phase_completed ''startup'' (startup_counted made errs (transition_session_phase STARTUP w)))
                   else update_phase env cfg acct (Some (acc_liked_me_count acct))
                        (phase_completed ''startup'' (startup_counted made errs (transition_session_phase STARTUP w))))"
            using Returns r False p yes c by (simp add: session_body_def Let_def)
          then show ?thesis
            by (simp only: after_count_footprint footprint_prims)
        qed
      qed
    qed
  qed
qed


lemma fold_max_ge: "a \<le> fold max xs (a::nat)"
proof (induction xs arbitrary: a)
  case Nil
  show ?case by simp
next
  case (Cons y ys)
  have "a \<le> max y a" by simp
  also have "\<dots> \<le> fold max ys (max y a)" by (rule Cons.IH)
  finally show ?case by simp
qed

lemma fold_max_mem: "x \<in> set xs \<Longrightarrow> x \<le> fold max xs (a::nat)"
proof (induction xs arbitrary: a)
  case Nil
  then show ?case by simp
next
  case (Cons y ys)
  show ?case
  proof (cases "x = y")
    case True
    have "y \<le> max y a" by simp
    also have "\<dots> \<le> fold max ys (max y a)" by (rule fold_max_ge)
    finally show ?thesis using True by simp
  next
    case False
    with Cons.prems have "x \<in> set ys" by simp
    from Cons.IH [OF this] show ?thesis by simp
  qed
qed

lemma fresh_id_new: "fresh_id rows \<notin> set (map row_id rows)"
proof
  assume "fresh_id rows \<in> set (map row_id rows)"
  from fold_max_mem [OF this, of 0] show False by (simp add: fresh_id_def)
qed

lemma start_footprint:
  assumes "db_insert_ok env"
  shows "fst (start_enhanced_session env a w) = fresh_id (sessions w)"
    and "\<exists>t. footprint (snd (start_enhanced_session env a w))
           = (map row_id (sessions w) @ [fresh_id (sessions w)], Some t)"
  using assms
  by (simp_all add: start_enhanced_session_def Let_def tick_def footprint_def)

lemma rows_of_length:
  "length (rows_of sid w) = length (filter (\<lambda>i. i = sid) (map row_id (sessions w)))"
  by (simp add: rows_of_def filter_map comp_def)

lemma one_row:
  assumes "map row_id (sessions w') = map row_id rows @ [fresh_id rows]"
  shows "length (rows_of (fresh_id rows) w') = 1"
proof -
  have "\<forall>i \<in> set (map row_id rows). i \<noteq> fresh_id rows"
    using fresh_id_new [of rows] by blast
  then have "filter (\<lambda>i. i = fresh_id rows) (map row_id rows) = []"
    unfolding filter_empty_conv by blast
  then show ?thesis
    by (simp add: rows_of_length assms)
qed

text \<open>
  C1: in every run whose session was started (the store took the insert and the draw of
  the duration returned) and whose store takes the updates, whatever each call of the
  phases does, return or raise, nothing leaves the function: it returns, the run has
  added exactly one row to the session table, and that row carries an end time.
\<close>

theorem session_always_finalized:
  assumes ins: "db_insert_ok env" and upd: "\<forall>k. db_update_ok env k"
    and dur: "duration_draw env = Returns d"
  shows "\<exists>w'. process_single_account_enhanced env cfg acct w = Inr w'
           \<and> map row_id (sessions w') = map row_id (sessions w) @ [fresh_id (sessions w)]
           \<and> length (rows_of (fresh_id (sessions w)) w') = 1
           \<and> list_all ended (rows_of (fresh_id (sessions w)) w')"
proof -
  let ?sid = "fresh_id (sessions w)"
  define w1 where "w1 = snd (start_enhanced_session env (acc_id acct) w)"
  from start_footprint [OF ins, of "acc_id acct" w]
  obtain t where sid: "fst (start_enhanced_session env (acc_id acct) w) = ?sid"
    and f1: "footprint w1 = (map row_id (sessions w) @ [?sid], Some t)"
    by (auto simp: w1_def)
  have nz: "?sid \<noteq> 0" by (simp add: fresh_id_def)
  define w3 where "w3 = (if api_initialized env
      then snd (session_body env cfg acct ?sid (w1\<lparr>stats := empty_stats\<rparr>)) else w1)"
  define st where "st = (if api_initialized env then stats w3 else empty_stats)"
  define w' where "w' = end_enhanced_session env cfg ?sid st w3"
  have "footprint (w1\<lparr>stats := empty_stats\<rparr>) = footprint w1"
    by (simp add: footprint_def)
  then have f3: "footprint w3 = (map row_id (sessions w) @ [?sid], Some t)"
    by (simp add: w3_def f1)
  have run: "process_single_account_enhanced env cfg acct w = Inr w'"
    using sid nz dur
    by (simp add: process_single_account_enhanced_def Let_def w1_def [symmetric] w'_def w3_def st_def)
  have "footprint w' = footprint w3"
    by (simp add: w'_def)
  with f3 have ids: "map row_id (sessions w') = map row_id (sessions w) @ [?sid]"
    by (simp add: footprint_def)
  from f3 have "start_time (current w3) \<noteq> None"
    by (simp add: footprint_def)
  moreover from upd have "db_update_ok env (end_calls w3)" by simp
  ultimately have "list_all ended (rows_of ?sid w')"
    unfolding w'_def by (rule end_sets_end)
  with run ids one_row [OF ids] show ?thesis by blast
qed

text \<open>
  Two runs on a Gold account with five likes: in the first the liking raises, in the
  second the profile update raises. Both leave the \<open>try\<close> block by the exception, and
  the row 8 of the run is closed.
\<close>

theorem session_always_finalized_witness:
  "db_insert_ok liking_raises \<and> (\<forall>k. db_update_ok liking_raises k)
   \<and> duration_draw liking_raises = Returns 900
   \<and> fst (session_body liking_raises default_config gold_account 8
          ((snd (start_enhanced_session liking_raises 1 store))\<lparr>stats := empty_stats\<rparr>))
       = Raised OtherError
   \<and> fst (session_body update_raises default_config gold_account 8
          ((snd (start_enhanced_session update_raises 1 store))\<lparr>stats := empty_stats\<rparr>))
       = Raised KeyError
   \<and> (\<exists>w'. process_single_account_enhanced liking_raises default_config gold_account store
               = Inr w'
            \<and> map row_id (sessions w') = [7, 8]
            \<and> length (rows_of 8 w') = 1 \<and> list_all ended (rows_of 8 w'))
   \<and> (\<exists>w'. process_single_account_enhanced update_raises default_config gold_account store
               = Inr w'
            \<and> map row_id (sessions w') = [7, 8]
            \<and> length (rows_of 8 w') = 1 \<and> list_all ended (rows_of 8 w'))"
proof -
  have i: "db_insert_ok liking_raises" "db_insert_ok update_raises"
    and u: "\<forall>k. db_update_ok liking_raises k" "\<forall>k. db_update_ok update_raises k"
    and d: "duration_draw liking_raises = Returns 900" "duration_draw update_raises = Returns 900"
    by (simp_all add: liking_raises_def update_raises_def)
  have f: "fresh_id (sessions store) = 8" and s: "map row_id (sessions store) = [7]"
    by code_simp+
  have b1: "fst (session_body liking_raises default_config gold_account 8
          ((snd (start_enhanced_session liking_raises 1 store))\<lparr>stats := empty_stats\<rparr>))
       = Raised OtherError"
    by code_simp
  have b2: "fst (session_body update_raises default_config gold_account 8
          ((snd (start_enhanced_session update_raises 1 store))\<lparr>stats := empty_stats\<rparr>))
       = Raised KeyError"
    by code_simp
  from session_always_finalized [OF i(1) u(1) d(1), of default_config gold_account store]
    session_always_finalized [OF i(2) u(2) d(2), of default_config gold_account store]
    i(1) u(1) d(1) b1 b2
  show ?thesis
    unfolding f s by simp
qed

end
